theory Spec2Isabelle
  imports Main
begin

chapter \<open>The courier gateway: the Chat API adapter and the task queue\<close>

text \<open>
  A shallow embedding of three pieces of the gateway: the outbound \<open>SendMsg\<close> of the Chat
  API adapter (two versions of one file), its inbound \<open>receiveMessage\<close>, and the Redis
  enqueue functions of the backend.  Every collaborator the code calls without owning it (the
  provider behind HTTP, the backend behind its interface, Redis, the clock, JSON libraries)
  is explicit: a parameter, or a history of the calls made and their answers.
\<close>

section \<open>Canonical data model\<close>

text \<open>
  Go errors are values.  \<open>courier.ErrMsgNotFound\<close> is a sentinel the handler compares
  with \<open>==\<close>; every other error is one built by \<open>fmt.Errorf\<close> / \<open>errors.Errorf\<close> or handed
  back by a collaborator, and only its message matters.
\<close>

datatype error = ErrMsgNotFound | Errorf string

datatype MsgStatusValue =
  MsgPending | MsgQueued | MsgWired | MsgSent | MsgDelivered | MsgErrored | MsgFailed

text \<open>A channel's configuration is a \<open>map[string]interface{}\<close>: values are dynamically typed.\<close>

datatype config_value = CString string | CInt int | CBool bool

record Channel =
  channel_UUID :: string
  channel_Type :: string
  channel_Config :: "(string \<times> config_value) list"

definition ConfigAuthToken :: string where
  "ConfigAuthToken = ''auth_token''"

definition ConfigSendURL :: string where
  "ConfigSendURL = ''send_url''"

text \<open>
  Modelled from the spec: \<open>Channel.ConfigForKey(key, default)\<close> is declared outside
  \<open>src/\<close>.  The channel carries "a typed configuration mapping"; the call returns the
  value stored under the key, and the default when the key is absent.
\<close>

definition ConfigForKey :: "Channel \<Rightarrow> string \<Rightarrow> config_value \<Rightarrow> config_value" where
  "ConfigForKey ch key dflt =
     (case map_of (channel_Config ch) key of None \<Rightarrow> dflt | Some v \<Rightarrow> v)"

text \<open>The Go type assertion \<open>v, isStr := x.(string)\<close>: the zero string when \<open>x\<close> is no string.\<close>

fun assert_string :: "config_value \<Rightarrow> string \<times> bool" where
  "assert_string (CString s) = (s, True)"
| "assert_string _ = ('''', False)"

record URN =
  urn_Scheme :: string
  urn_Path :: string

text \<open>
  Modelled from the spec: \<open>courier.Msg\<close> (section 3, Message).  One record serves both
  directions.  \<open>msg_AlreadySeen\<close> is the annotation \<open>CheckExternalIDSeen\<close> may put on an
  incoming event.
\<close>

record Msg =
  msg_ID :: int
  msg_Channel :: Channel
  msg_URN :: URN
  msg_Text :: string
  msg_Attachments :: "string list"
  msg_QuickReplies :: "string list"
  msg_ExternalID :: string
  msg_ReceivedOn :: int
  msg_ContactName :: string
  msg_AlreadySeen :: bool

subsection \<open>HTTP exchanges\<close>

datatype http_body = FormBody "(string \<times> string list) list" | RawBody string

record http_request =
  req_Method :: string
  req_URL :: string
  req_Headers :: "(string \<times> string) list"
  req_Body :: http_body

record RequestResponse =
  rr_StatusCode :: int
  rr_Body :: string

text \<open>
  The provider is the environment: what it answers may depend on the request and on every
  exchange made so far.  \<open>utils.MakeHTTPRequest\<close> performs one exchange and appends it to
  the history.
\<close>

type_synonym exchange = "http_request \<times> RequestResponse \<times> error option"

type_synonym http_server = "exchange list \<Rightarrow> http_request \<Rightarrow> RequestResponse \<times> error option"

definition MakeHTTPRequest ::
  "http_server \<Rightarrow> exchange list \<Rightarrow> http_request \<Rightarrow> (RequestResponse \<times> error option) \<times> exchange list" where
  "MakeHTTPRequest srv w req = (let (rr, err) = srv w req in ((rr, err), w @ [(req, rr, err)]))"

subsection \<open>Channel logs and message statuses\<close>

text \<open>
  The constructors of \<open>courier.ChannelLog\<close> are kept uninterpreted: a log is the term of
  the calls that built it.
\<close>

datatype ChannelLog =
  NewChannelLogFromRR string Channel int RequestResponse
| NewChannelLog string Channel int error
| WithError ChannelLog string "error option"

text \<open>
  Modelled from the spec: \<open>courier.MsgStatus\<close> and the backend constructors
  \<open>NewMsgStatusForID\<close> / \<open>NewMsgStatusForExternalID\<close> ("construct status objects keyed by
  internal ID or provider ID").  Setters overwrite ("adapters overwrite on each part").
\<close>

record MsgStatus =
  status_Channel :: Channel
  status_ID :: int
  status_ExternalID :: string
  status_Status :: MsgStatusValue
  status_Logs :: "ChannelLog list"

definition NewMsgStatusForID :: "Channel \<Rightarrow> int \<Rightarrow> MsgStatusValue \<Rightarrow> MsgStatus" where
  "NewMsgStatusForID ch mid st =
     \<lparr>status_Channel = ch, status_ID = mid, status_ExternalID = '''',
      status_Status = st, status_Logs = []\<rparr>"

definition NewMsgStatusForExternalID :: "Channel \<Rightarrow> string \<Rightarrow> MsgStatusValue \<Rightarrow> MsgStatus" where
  "NewMsgStatusForExternalID ch ext st =
     \<lparr>status_Channel = ch, status_ID = 0, status_ExternalID = ext,
      status_Status = st, status_Logs = []\<rparr>"

definition SetExternalID :: "MsgStatus \<Rightarrow> string \<Rightarrow> MsgStatus" where
  "SetExternalID status ext = status\<lparr>status_ExternalID := ext\<rparr>"

definition SetStatus :: "MsgStatus \<Rightarrow> MsgStatusValue \<Rightarrow> MsgStatus" where
  "SetStatus status v = status\<lparr>status_Status := v\<rparr>"

definition AddLog :: "MsgStatus \<Rightarrow> ChannelLog \<Rightarrow> MsgStatus" where
  "AddLog status l = status\<lparr>status_Logs := status_Logs status @ [l]\<rparr>"

subsection \<open>Standard-library helpers\<close>

text \<open>\<open>strings.Split(s, sep)[0]\<close> for a non-empty separator: the text before its first occurrence.\<close>

fun Split_first :: "string \<Rightarrow> string \<Rightarrow> string" where
  "Split_first [] sep = []"
| "Split_first (c # cs) sep =
     (if take (length sep) (c # cs) = sep then [] else c # Split_first cs sep)"

text \<open>\<open>strings.Replace(s, old, new, 1)\<close>: the first occurrence of \<open>old\<close> is replaced.\<close>

fun Replace_1 :: "string \<Rightarrow> string \<Rightarrow> string \<Rightarrow> string" where
  "Replace_1 [] old new = (if old = [] then new else [])"
| "Replace_1 (c # cs) old new =
     (if take (length old) (c # cs) = old then new @ drop (length old) (c # cs)
      else c # Replace_1 cs old new)"

text \<open>Decimal printing: \<open>strconv.FormatInt(n, 10)\<close> and the verb \<open>%d\<close>.\<close>

definition digit_char :: "int \<Rightarrow> char" where
  "digit_char d = ''0123456789'' ! nat d"

function digits :: "int \<Rightarrow> string" where
  "digits n = (if n < 10 then [digit_char n] else digits (n div 10) @ [digit_char (n mod 10)])"
  by pat_completeness auto
termination
  by (relation "measure nat") auto

declare digits.simps [simp del]

definition FormatInt :: "int \<Rightarrow> string" where
  "FormatInt i = (if i < 0 then CHR ''-'' # digits (- i) else digits i)"

definition quote :: string where
  "quote = [CHR 0x27]"

definition dquote :: string where
  "dquote = [CHR 0x22]"

section \<open>External collaborators\<close>

text \<open>
  Functions of third-party libraries (\<open>jsonparser\<close>, \<open>encoding/json\<close>, \<open>gocommon/urns\<close>) and
  of the \<open>handlers\<close> package, whose code is not under \<open>src/\<close>.  They are parameters: every
  theorem below holds for whatever they compute.  A \<open>jsonparser\<close> getter returns
  \<open>(value, err)\<close>; \<open>None\<close> stands for \<open>err != nil\<close>.
\<close>

record moKey =
  key_Text :: string

record moKeyboard =
  ResizeKeyboard :: bool
  OneTimeKeyboard :: bool
  Keyboard :: "moKey list list"

record moSendMsgPayload =
  smp_Phone :: string
  smp_Body :: string

record moSendFilePayload =
  sfp_Phone :: string
  sfp_Body :: string
  sfp_Filename :: string
  sfp_Caption :: string

datatype send_payload = SendMsgPayload moSendMsgPayload | SendFilePayload moSendFilePayload

record externals =
  GetBoolean :: "string \<Rightarrow> string list \<Rightarrow> bool option"
  GetInt :: "string \<Rightarrow> string list \<Rightarrow> int option"
  GetString :: "string \<Rightarrow> string list \<Rightarrow> string option"
  SplitAttachment :: "string \<Rightarrow> string \<times> string"
  Marshal_keyboard :: "moKeyboard \<Rightarrow> error + string"
  Marshal_payload :: "send_payload \<Rightarrow> error + string"
  NewWhatsAppURN :: "string \<Rightarrow> error + URN"
  NameFromFirstLastUsername :: "string \<Rightarrow> string \<Rightarrow> string \<Rightarrow> string"

section \<open>Outbound: \<open>SendMsg\<close> of \<open>src/handlers/chatapi/chatapi.go\<close>\<close>

definition apiURL :: string where
  "apiURL = ''https://api.telegram.org''"

definition remove_keyboard :: string where
  "remove_keyboard = ''{'' @ dquote @ ''remove_keyboard'' @ dquote @ '':true}''"

text \<open>The request \<open>sendMsgPart\<close> builds: the form with \<open>reply_markup\<close> added, posted to the bot URL.\<close>

definition part_request :: "string \<Rightarrow> string \<Rightarrow> (string \<times> string list) list \<Rightarrow> string \<Rightarrow> http_request" where
  "part_request token path form replies =
     \<lparr>req_Method = ''POST'',
      req_URL = apiURL @ ''/bot'' @ token @ ''/'' @ path,
      req_Headers = [(''Content-Type'', ''application/x-www-form-urlencoded'')],
      req_Body = FormBody (form @ [(''reply_markup'',
                   [if replies = '''' then remove_keyboard else replies])])\<rparr>"

text \<open>
  What \<open>sendMsgPart\<close> reads off the response: the external ID and the error.  The error of
  the HTTP call itself goes to the log only; success is decided by the body.
\<close>

definition part_outcome :: "externals \<Rightarrow> RequestResponse \<Rightarrow> string \<times> error option" where
  "part_outcome x rr =
     (if GetBoolean x (rr_Body rr) [''ok''] \<noteq> Some True
      then ('''', Some (Errorf (''response not '' @ quote @ ''ok'' @ quote)))
      else case GetInt x (rr_Body rr) [''result'', ''message_id''] of
             None \<Rightarrow> ('''', Some (Errorf (''no '' @ quote @ ''result.message_id'' @ quote @ '' in response'')))
           | Some externalID \<Rightarrow> (FormatInt externalID, None))"

definition sendMsgPart ::
  "externals \<Rightarrow> http_server \<Rightarrow> exchange list \<Rightarrow> Msg \<Rightarrow> string \<Rightarrow> string \<Rightarrow>
   (string \<times> string list) list \<Rightarrow> string \<Rightarrow> (string \<times> ChannelLog \<times> error option) \<times> exchange list" where
  "sendMsgPart x srv w msg token path form replies =
     (let req = part_request token path form replies;
          ((rr, err), w') = MakeHTTPRequest srv w req;
          log = WithError (NewChannelLogFromRR ''Message Sent'' (msg_Channel msg) (msg_ID msg) rr)
                  ''Message Send Error'' err;
          (externalID, err') = part_outcome x rr
      in ((externalID, log, err'), w'))"

text \<open>The local variables of \<open>SendMsg\<close> that its parts update, and the exchanges made.\<close>

record send_state =
  st_status :: MsgStatus
  st_hasError :: bool
  st_replies :: string
  st_world :: "exchange list"

text \<open>
  After each call of \<open>sendMsgPart\<close> the source runs
  \<open>status.SetExternalID(externalID); hasError = err != nil; status.AddLog(log)\<close>.
\<close>

definition record_part :: "(string \<times> ChannelLog \<times> error option) \<times> exchange list \<Rightarrow> send_state \<Rightarrow> send_state" where
  "record_part r s =
     (let ((externalID, log, err), w') = r
      in s\<lparr>st_status := AddLog (SetExternalID (st_status s) externalID) log,
           st_hasError := (err \<noteq> None),
           st_world := w'\<rparr>)"

definition send_media ::
  "externals \<Rightarrow> http_server \<Rightarrow> Msg \<Rightarrow> string \<Rightarrow> string \<Rightarrow> string \<Rightarrow> string \<Rightarrow> string \<Rightarrow>
   send_state \<Rightarrow> send_state" where
  "send_media x srv msg token path field mediaURL caption s =
     record_part
       (sendMsgPart x srv (st_world s) msg token path
          [(''chat_id'', [urn_Path (msg_URN msg)]), (field, [mediaURL]), (''caption'', [caption])]
          (st_replies s)) s"

text \<open>One iteration of the loop over the attachments, up to the clearing of \<open>replies\<close>.\<close>

definition send_attachment ::
  "externals \<Rightarrow> http_server \<Rightarrow> Msg \<Rightarrow> string \<Rightarrow> string \<Rightarrow> string \<Rightarrow> send_state \<Rightarrow> send_state" where
  "send_attachment x srv msg token caption attachment s =
     (let (mediaType, mediaURL) = SplitAttachment x attachment;
          kind = Split_first mediaType ''/''
      in if kind = ''image'' then send_media x srv msg token ''sendPhoto'' ''photo'' mediaURL caption s
         else if kind = ''video'' then send_media x srv msg token ''sendVideo'' ''video'' mediaURL caption s
         else if kind = ''audio'' then send_media x srv msg token ''sendAudio'' ''audio'' mediaURL caption s
         else s\<lparr>st_status := AddLog (st_status s)
                   (NewChannelLog (''Unknown media type: '' @ mediaType) (msg_Channel msg) (msg_ID msg)
                      (Errorf (''unknown media type: '' @ mediaType))),
                 st_hasError := True\<rparr>)"

fun send_attachments ::
  "externals \<Rightarrow> http_server \<Rightarrow> Msg \<Rightarrow> string \<Rightarrow> string \<Rightarrow> string list \<Rightarrow> send_state \<Rightarrow> send_state" where
  "send_attachments x srv msg token caption [] s = s"
| "send_attachments x srv msg token caption (a # as) s =
     send_attachments x srv msg token caption as
       ((send_attachment x srv msg token caption a s)\<lparr>st_replies := ''''\<rparr>)"

text \<open>The keyboard sent along when the message has quick replies: its JSON, or no text.\<close>

definition keyboard_replies :: "externals \<Rightarrow> string list \<Rightarrow> error + string" where
  "keyboard_replies x qrs =
     (if length qrs > 0
      then Marshal_keyboard x
             \<lparr>ResizeKeyboard = True, OneTimeKeyboard = True,
              Keyboard = [map (\<lambda>qr. \<lparr>key_Text = qr\<rparr>) qrs]\<rparr>
      else Inr '''')"

definition SendMsg :: "externals \<Rightarrow> http_server \<Rightarrow> Msg \<Rightarrow> (error + MsgStatus) \<times> exchange list" where
  "SendMsg x srv msg =
     (let confAuth = ConfigForKey (msg_Channel msg) ConfigAuthToken (CString '''');
          (authToken, isStr) = assert_string confAuth
      in if \<not> isStr \<or> authToken = '''' then (Inl (Errorf ''invalid auth token config''), [])
         else
           let caption = (if length (msg_Attachments msg) = 1 then msg_Text msg else '''');
               status = NewMsgStatusForID (msg_Channel msg) (msg_ID msg) MsgErrored;
               hasError = True;
               qrs = msg_QuickReplies msg
           in case keyboard_replies x qrs of
                Inl err \<Rightarrow> (Inl err, [])
              | Inr replies \<Rightarrow>
                  let s0 = \<lparr>st_status = status, st_hasError = hasError, st_replies = replies,
                            st_world = []\<rparr>;
                      s1 = (if msg_Text msg \<noteq> '''' \<and> caption = ''''
                            then (record_part
                                    (sendMsgPart x srv (st_world s0) msg authToken ''sendMessage''
                                       [(''chat_id'', [urn_Path (msg_URN msg)]), (''text'', [msg_Text msg])]
                                       (st_replies s0)) s0)\<lparr>st_replies := ''''\<rparr>
                            else s0);
                      s2 = send_attachments x srv msg authToken caption (msg_Attachments msg) s1
                  in (Inr (if \<not> st_hasError s2 then SetStatus (st_status s2) MsgWired
                           else st_status s2),
                      st_world s2))"

section \<open>Outbound: \<open>SendMsg\<close> of \<open>src/unnamed/part_000\<close>\<close>

text \<open>This version posts JSON to the configured send URL and knows image attachments only.\<close>

definition part_request_p0 :: "string \<Rightarrow> string \<Rightarrow> string \<Rightarrow> string \<Rightarrow> http_request" where
  "part_request_p0 url token path jsonBody =
     \<lparr>req_Method = ''POST'',
      req_URL = url @ ''/'' @ path @ ''?token='' @ token,
      req_Headers = [(''Content-Type'', ''application/json''), (''Accept'', ''application/json'')],
      req_Body = RawBody jsonBody\<rparr>"

definition part_outcome_p0 :: "externals \<Rightarrow> RequestResponse \<Rightarrow> string \<times> error option" where
  "part_outcome_p0 x rr =
     (case GetString x (rr_Body rr) [''id''] of
        None \<Rightarrow> ('''', Some (Errorf (''no '' @ quote @ ''id'' @ quote @ '' in response'')))
      | Some externalID \<Rightarrow> (externalID, None))"

definition sendMsgPart_p0 ::
  "externals \<Rightarrow> http_server \<Rightarrow> exchange list \<Rightarrow> Msg \<Rightarrow> string \<Rightarrow> string \<Rightarrow> string \<Rightarrow>
   send_payload \<Rightarrow> (string \<times> ChannelLog \<times> error option) \<times> exchange list" where
  "sendMsgPart_p0 x srv w msg url token path payload =
     (case Marshal_payload x payload of
        Inl err \<Rightarrow>
          (('''', NewChannelLog ''unable to build JSON body'' (msg_Channel msg) (msg_ID msg) err,
            Some err), w)
      | Inr jsonBody \<Rightarrow>
          let req = part_request_p0 url token path jsonBody;
              ((rr, err), w') = MakeHTTPRequest srv w req;
              log = WithError (NewChannelLogFromRR ''Message Sent'' (msg_Channel msg) (msg_ID msg) rr)
                      ''Message Send Error'' err;
              (externalID, err') = part_outcome_p0 x rr
          in ((externalID,
               (if err' \<noteq> None
                then WithError log ''Message Send Error'' (Some (Errorf ''unable to get id from body''))
                else log),
               err'), w'))"

definition send_attachment_p0 ::
  "externals \<Rightarrow> http_server \<Rightarrow> Msg \<Rightarrow> string \<Rightarrow> string \<Rightarrow> string \<Rightarrow> string \<Rightarrow> send_state \<Rightarrow> send_state" where
  "send_attachment_p0 x srv msg url token caption attachment s =
     (let (mediaType, mediaURL) = SplitAttachment x attachment
      in if Split_first mediaType ''/'' = ''image''
         then record_part
                (sendMsgPart_p0 x srv (st_world s) msg url token ''sendFile''
                   (SendFilePayload \<lparr>sfp_Phone = urn_Path (msg_URN msg), sfp_Body = mediaURL,
                                      sfp_Filename = ''file.jpg'', sfp_Caption = caption\<rparr>)) s
         else s\<lparr>st_status := AddLog (st_status s)
                   (NewChannelLog (''Unknown media type: '' @ mediaType) (msg_Channel msg) (msg_ID msg)
                      (Errorf (''unknown media type: '' @ mediaType))),
                 st_hasError := True\<rparr>)"

fun send_attachments_p0 ::
  "externals \<Rightarrow> http_server \<Rightarrow> Msg \<Rightarrow> string \<Rightarrow> string \<Rightarrow> string \<Rightarrow> string list \<Rightarrow> send_state \<Rightarrow> send_state" where
  "send_attachments_p0 x srv msg url token caption [] s = s"
| "send_attachments_p0 x srv msg url token caption (a # as) s =
     send_attachments_p0 x srv msg url token caption as
       (send_attachment_p0 x srv msg url token caption a s)"

definition SendMsg_p0 :: "externals \<Rightarrow> http_server \<Rightarrow> Msg \<Rightarrow> (error + MsgStatus) \<times> exchange list" where
  "SendMsg_p0 x srv msg =
     (let confAuth = ConfigForKey (msg_Channel msg) ConfigAuthToken (CString '''');
          (authToken, isStr) = assert_string confAuth
      in if \<not> isStr \<or> authToken = '''' then (Inl (Errorf ''invalid auth token config''), [])
         else
           let confSendURL = ConfigForKey (msg_Channel msg) ConfigSendURL (CString '''');
               (sendURL, isStr) = assert_string confSendURL
           in if \<not> isStr \<or> sendURL = '''' then (Inl (Errorf ''invalid send url config''), [])
              else
                let caption = (if length (msg_Attachments msg) = 1 then msg_Text msg else '''');
                    status = NewMsgStatusForID (msg_Channel msg) (msg_ID msg) MsgErrored;
                    hasError = True;
                    s0 = \<lparr>st_status = status, st_hasError = hasError, st_replies = '''',
                          st_world = []\<rparr>;
                    s1 = (if msg_Text msg \<noteq> '''' \<and> caption = ''''
                          then record_part
                                 (sendMsgPart_p0 x srv (st_world s0) msg sendURL authToken ''sendMessage''
                                    (SendMsgPayload \<lparr>smp_Phone = urn_Path (msg_URN msg),
                                                      smp_Body = msg_Text msg\<rparr>)) s0
                          else s0);
                    s2 = send_attachments_p0 x srv msg sendURL authToken caption (msg_Attachments msg) s1
                in (Inr (if \<not> st_hasError s2 then SetStatus (st_status s2) MsgWired
                         else st_status s2),
                    st_world s2))"

section \<open>Inbound: \<open>receiveMessage\<close>\<close>

text \<open>
  The function is the same, line for line, in \<open>src/handlers/chatapi/chatapi.go\<close> and in
  \<open>src/unnamed/part_000\<close>; one model serves both.
\<close>

record moMessage =
  mo_ID :: string
  mo_Body :: string
  mo_Type :: string
  mo_SenderName :: string
  mo_FromMe :: bool
  mo_Author :: string
  mo_Time :: int
  mo_ChatID :: string
  mo_MessageNumber :: int
  mo_Caption :: string

record moAck =
  ack_ID :: string
  ack_MessageNumber :: int
  ack_ChatID :: string
  ack_Status :: string

record moPayload =
  InstanceID :: string
  Messages :: "moMessage list"
  Ack :: "moAck list"

subsection \<open>The backend port\<close>

text \<open>
  The backend is an interface with no implementation under \<open>src/\<close>.  Its effectful operations are
  parameters whose answers may depend on every call made so far, and the handler's calls are
  recorded, with their answers, in that history.
\<close>

datatype backend_event =
  EvCheckExternalIDSeen Msg Msg
| EvWriteMsg Msg "error option"
| EvWriteExternalIDSeen Msg
| EvWriteMsgStatus MsgStatus "error option"

record backend =
  CheckExternalIDSeen :: "backend_event list \<Rightarrow> Msg \<Rightarrow> Msg"
  WriteMsg :: "backend_event list \<Rightarrow> Msg \<Rightarrow> error option"
  WriteMsgStatus :: "backend_event list \<Rightarrow> MsgStatus \<Rightarrow> error option"

text \<open>
  Modelled from the spec: \<open>Backend.NewIncomingMsg(channel, urn, text)\<close> ("construct canonical
  messages") and the fluent decorators \<open>WithExternalID\<close>, \<open>WithReceivedOn\<close>,
  \<open>WithContactName\<close>, \<open>WithAttachment\<close> of \<open>courier.Msg\<close>.
\<close>

definition NewIncomingMsg :: "Channel \<Rightarrow> URN \<Rightarrow> string \<Rightarrow> Msg" where
  "NewIncomingMsg ch urn text =
     \<lparr>msg_ID = 0, msg_Channel = ch, msg_URN = urn, msg_Text = text, msg_Attachments = [],
      msg_QuickReplies = [], msg_ExternalID = '''', msg_ReceivedOn = 0, msg_ContactName = '''',
      msg_AlreadySeen = False\<rparr>"

definition WithExternalID :: "Msg \<Rightarrow> string \<Rightarrow> Msg" where
  "WithExternalID m ext = m\<lparr>msg_ExternalID := ext\<rparr>"

definition WithReceivedOn :: "Msg \<Rightarrow> int \<Rightarrow> Msg" where
  "WithReceivedOn m date = m\<lparr>msg_ReceivedOn := date\<rparr>"

definition WithContactName :: "Msg \<Rightarrow> string \<Rightarrow> Msg" where
  "WithContactName m name = m\<lparr>msg_ContactName := name\<rparr>"

definition WithAttachment :: "Msg \<Rightarrow> string \<Rightarrow> Msg" where
  "WithAttachment m url = m\<lparr>msg_Attachments := msg_Attachments m @ [url]\<rparr>"

subsection \<open>Responses\<close>

datatype data_item =
  MsgReceiveData Msg
| StatusData MsgStatus
| InfoData string
| ErrorData error

record response =
  resp_Code :: nat
  resp_Message :: string
  resp_Data :: "data_item list"

datatype event = MsgEvent Msg | StatusEvent MsgStatus

text \<open>
  What a handler returns: it has written a response and returns its events, or it returns an
  error without having written one.
\<close>

datatype handler_result = Responded "event list" response | Failed error

definition WriteDataResponse :: "nat \<Rightarrow> string \<Rightarrow> data_item list \<Rightarrow> response" where
  "WriteDataResponse code message items =
     \<lparr>resp_Code = code, resp_Message = message, resp_Data = items\<rparr>"

text \<open>
  Modelled from the spec: \<open>handlers.WriteAndLogRequestError\<close> and
  \<open>handlers.WriteAndLogRequestIgnored\<close> are not under \<open>src/\<close>.  Section 7: a malformed request
  surfaces as \<open>400\<close> with the error envelope \<open>{"message":"Error","data":[{"type":"error",...}]}\<close>;
  an ignored request as \<open>200\<close> with an info envelope.
\<close>

definition WriteAndLogRequestError :: "error \<Rightarrow> response" where
  "WriteAndLogRequestError err = WriteDataResponse 400 ''Error'' [ErrorData err]"

definition WriteAndLogRequestIgnored :: "string \<Rightarrow> response" where
  "WriteAndLogRequestIgnored details = WriteDataResponse 200 ''Ignored'' [InfoData details]"

text \<open>
  Modelled from the spec: the router around the handler (section 4.1): "handler returns
  error" gives \<open>500\<close>; otherwise the status is that of the response written.
\<close>

fun http_status :: "handler_result \<Rightarrow> nat" where
  "http_status (Responded evs r) = resp_Code r"
| "http_status (Failed err) = 500"

text \<open>
  Modelled from the spec: \<open>handlers.DecodeAndValidateJSON\<close> is not under \<open>src/\<close>.  Section 4.3,
  step 1: "Decode JSON to the adapter's payload type; run structural validation"; a payload
  that fails either is a malformed request.  The request body is given as the struct it
  decodes to, \<open>None\<close> when it is not JSON of that shape.  The structural validation is the
  one the struct tags of \<open>moPayload\<close> ask for: its only tag is \<open>validate:"required"\<close> on
  \<open>InstanceID\<close>, which a zero value (the empty string) fails.
\<close>

definition DecodeAndValidateJSON :: "moPayload option \<Rightarrow> error + moPayload" where
  "DecodeAndValidateJSON body =
     (case body of
        None \<Rightarrow> Inl (Errorf ''unable to parse request JSON'')
      | Some payload \<Rightarrow>
          if InstanceID payload = '''' then Inl (Errorf ''request JSON doesn't match required schema'')
          else Inr payload)"

subsection \<open>The handler\<close>

text \<open>
  A loop of the handler either returns from the function (\<open>Inl\<close>: the history and the result)
  or runs to its end (\<open>Inr\<close>: the history, \<open>events\<close> and \<open>data\<close>).
\<close>

type_synonym loop_state = "backend_event list \<times> event list \<times> data_item list"

type_synonym loop_result = "(backend_event list \<times> handler_result) + loop_state"

text \<open>The body of the first loop for one message with \<open>FromMe == false\<close>.\<close>

definition receive_one :: "externals \<Rightarrow> backend \<Rightarrow> Channel \<Rightarrow> moMessage \<Rightarrow> loop_state \<Rightarrow> loop_result" where
  "receive_one x b channel message st =
     (let (h, events, items) = st;
          date = mo_Time message;
          author = mo_Author message;
          contactPhoneNumber = Replace_1 author ''@c.us'' ''''
      in case NewWhatsAppURN x contactPhoneNumber of
           Inl errURN \<Rightarrow> Inl (h, Responded [] (WriteAndLogRequestError errURN))
         | Inr urn \<Rightarrow>
             let name = NameFromFirstLastUsername x (mo_SenderName message) '''' '''';
                 isAttachment = (mo_Type message = ''image'');
                 text = (if mo_Type message = ''image'' then mo_Caption message else mo_Body message);
                 ev = WithContactName
                        (WithReceivedOn (WithExternalID (NewIncomingMsg channel urn text) (mo_ID message)) date)
                        name;
                 event0 = CheckExternalIDSeen b h ev;
                 h1 = h @ [EvCheckExternalIDSeen ev event0];
                 event = (if isAttachment then WithAttachment event0 (mo_Body message) else event0);
                 errMsg = WriteMsg b h1 event;
                 h2 = h1 @ [EvWriteMsg event errMsg]
             in (case errMsg of
                   Some err \<Rightarrow> Inl (h2, Failed err)
                 | None \<Rightarrow>
                     Inr (h2 @ [EvWriteExternalIDSeen event],
                          events @ [MsgEvent event],
                          items @ [MsgReceiveData event])))"

fun receive_messages :: "externals \<Rightarrow> backend \<Rightarrow> Channel \<Rightarrow> moMessage list \<Rightarrow> loop_state \<Rightarrow> loop_result" where
  "receive_messages x b channel [] st = Inr st"
| "receive_messages x b channel (message # rest) st =
     (if mo_FromMe message = False
      then case receive_one x b channel message st of
             Inl r \<Rightarrow> Inl r
           | Inr st' \<Rightarrow> receive_messages x b channel rest st'
      else receive_messages x b channel rest st)"

text \<open>The status an ack is mapped to: \<open>MsgQueued\<close> unless it says sent or delivered.\<close>

definition ack_status_value :: "moAck \<Rightarrow> MsgStatusValue" where
  "ack_status_value ack =
     (if ack_Status ack = ''sent'' then MsgSent
      else if ack_Status ack = ''delivered'' then MsgDelivered
      else MsgQueued)"

fun receive_acks :: "backend \<Rightarrow> Channel \<Rightarrow> moAck list \<Rightarrow> loop_state \<Rightarrow> loop_result" where
  "receive_acks b channel [] st = Inr st"
| "receive_acks b channel (ack # rest) (h, events, items) =
     (let status = ack_status_value ack;
          event = NewMsgStatusForExternalID channel (ack_ID ack) status;
          err = WriteMsgStatus b h event;
          h' = h @ [EvWriteMsgStatus event err]
      in if err = Some ErrMsgNotFound
         then receive_acks b channel rest (h', events, items @ [InfoData ''message not found, ignored''])
         else case err of
                Some e \<Rightarrow> Inl (h', Failed e)
              | None \<Rightarrow> receive_acks b channel rest
                         (h', events @ [StatusEvent event], items @ [StatusData event]))"

text \<open>\<open>h0\<close> is what the backend has been asked before this request.\<close>

definition receiveMessage ::
  "externals \<Rightarrow> backend \<Rightarrow> Channel \<Rightarrow> backend_event list \<Rightarrow> moPayload option \<Rightarrow>
   backend_event list \<times> handler_result" where
  "receiveMessage x b channel h0 body =
     (case DecodeAndValidateJSON body of
        Inl err \<Rightarrow> (h0, Responded [] (WriteAndLogRequestError err))
      | Inr payload \<Rightarrow>
          if InstanceID payload = ''''
          then (h0, Responded [] (WriteAndLogRequestIgnored ''Ignoring request, no message''))
          else (case receive_messages x b channel (Messages payload) (h0, [], []) of
                  Inl r \<Rightarrow> r
                | Inr st \<Rightarrow>
                    (case receive_acks b channel (Ack payload) st of
                       Inl r \<Rightarrow> r
                     | Inr (h, events, items) \<Rightarrow>
                         (h, Responded events (WriteDataResponse 200 ''Events Handled'' items)))))"

section \<open>Task queue: \<open>src/backends/rapidpro/task.go\<close>\<close>

subsection \<open>The Redis connection\<close>

text \<open>
  A command is its name and its arguments as the Go call passes them.  \<open>rc.Send\<close> puts a
  command on the connection; \<open>rc.Do\<close> puts one and waits for the reply, whose error is the
  environment's (\<open>reply\<close>).
\<close>

datatype redis_arg = AStr string | AInt int | ABytes string

datatype redis_cmd = Cmd string "redis_arg list"

fun cmd_name :: "redis_cmd \<Rightarrow> string" where
  "cmd_name (Cmd name args) = name"

definition Send :: "redis_cmd list \<Rightarrow> string \<Rightarrow> redis_arg list \<Rightarrow> redis_cmd list" where
  "Send rc name args = rc @ [Cmd name args]"

definition Do :: "redis_cmd list \<Rightarrow> string \<Rightarrow> redis_arg list \<Rightarrow> error option \<Rightarrow> error option \<times> redis_cmd list" where
  "Do rc name args reply = (reply, rc @ [Cmd name args])"

text \<open>
  Modelled from the spec: what a Redis server makes visible of a command stream (sections 4.6
  and 9: the \<open>MULTI\<close>/\<open>EXEC\<close> block is atomic, "on transaction failure nothing is
  visible").  A command outside a transaction takes effect as it arrives.  After \<open>multi\<close>
  commands are queued; \<open>exec\<close> makes the queued commands take effect together when the
  transaction succeeds (\<open>ok\<close>) and drops them otherwise.  A transaction never closed has no
  effect.
\<close>

fun server_effects :: "bool \<Rightarrow> redis_cmd list option \<Rightarrow> redis_cmd list \<Rightarrow> redis_cmd list" where
  "server_effects ok q [] = []"
| "server_effects ok None (c # cs) =
     (if cmd_name c = ''multi'' then server_effects ok (Some []) cs
      else if cmd_name c = ''exec'' then server_effects ok None cs
      else c # server_effects ok None cs)"
| "server_effects ok (Some queued) (c # cs) =
     (if cmd_name c = ''exec'' then (if ok then queued else []) @ server_effects ok None cs
      else if cmd_name c = ''multi'' then server_effects ok (Some queued) cs
      else server_effects ok (Some (queued @ [c])) cs)"

subsection \<open>Tasks and the environment\<close>

record mrContactTask =
  ct_ContactID :: int

text \<open>The field \<open>Task interface{}\<close> holds the caller's body or a contact task.\<close>

datatype 'b task_value = BodyTask 'b | ContactTask mrContactTask

record 'b mrTask =
  task_Type :: string
  task_OrgID :: int
  task_Task :: "'b task_value"
  task_QueuedOn :: int

text \<open>
  What the functions take from outside \<open>src/\<close>: \<open>json.Marshal\<close> (on a body
  \<open>'b\<close> and on an \<open>mrTask\<close>), the \<open>float64\<close> arithmetic of the Go runtime on a carrier
  \<open>'f\<close> (conversion from an integer, division, subtraction, and the verb \<open>%.5f\<close>), and the
  commands \<open>celery.QueueEmptyTask(rc, queueName, taskName)\<close> sends.  Times are instants in
  nanoseconds since the epoch, as \<open>UnixNano\<close> reads them.
\<close>

record ('b, 'f) queue_env =
  Marshal_body :: "'b \<Rightarrow> error + string"
  Marshal_task :: "'b mrTask \<Rightarrow> error + string"
  float64 :: "int \<Rightarrow> 'f"
  fdiv :: "'f \<Rightarrow> 'f \<Rightarrow> 'f"
  fsub :: "'f \<Rightarrow> 'f \<Rightarrow> 'f"
  Sprintf_5f :: "'f \<Rightarrow> string"
  QueueEmptyTask :: "string \<Rightarrow> string \<Rightarrow> redis_cmd list"

definition Second :: int where
  "Second = 1000000000"

subsection \<open>\<open>queueTask\<close>\<close>

text \<open>\<open>now\<close> is the reading of \<open>time.Now()\<close>, \<open>reply\<close> the error \<open>rc.Do("exec")\<close> returns.\<close>

definition queueTask ::
  "('b, 'f) queue_env \<Rightarrow> redis_cmd list \<Rightarrow> string \<Rightarrow> string \<Rightarrow> int \<Rightarrow> string \<Rightarrow> 'b \<Rightarrow>
   int \<Rightarrow> error option \<Rightarrow> error option \<times> redis_cmd list" where
  "queueTask env rc queueName taskName orgID subQueue body now reply =
     (case Marshal_body env body of
        Inl err \<Rightarrow> (Some err, rc)
      | Inr bodyJSON \<Rightarrow>
          let epochFloat = fdiv env (float64 env now) (float64 env Second);
              rc1 = Send rc ''multi'' [];
              rc2 = (if subQueue \<noteq> ''''
                     then Send rc1 ''zadd''
                            [AStr subQueue, AStr (Sprintf_5f env epochFloat), ABytes bodyJSON]
                     else rc1);
              rc3 = Send rc2 ''zadd''
                      [AStr (taskName @ '':'' @ FormatInt orgID),
                       AStr (Sprintf_5f env (fsub env epochFloat (float64 env 10000000))),
                       ABytes bodyJSON];
              rc4 = Send rc3 ''zincrby'' [AStr (taskName @ '':active''), AInt 0, AInt orgID];
              rc5 = rc4 @ QueueEmptyTask env queueName taskName
          in Do rc5 ''exec'' [] reply)"

subsection \<open>\<open>queueMailroomTask\<close>\<close>

text \<open>
  \<open>time.Now()\<close> is read three times: \<open>t1\<close> and \<open>t2\<close> stamp the two tasks, \<open>now\<close> gives the
  score.
\<close>

definition queueMailroomTask ::
  "('b, 'f) queue_env \<Rightarrow> redis_cmd list \<Rightarrow> string \<Rightarrow> int \<Rightarrow> int \<Rightarrow> 'b \<Rightarrow>
   int \<Rightarrow> int \<Rightarrow> int \<Rightarrow> error option \<Rightarrow> error option \<times> redis_cmd list" where
  "queueMailroomTask env rc taskType orgID contactID body t1 t2 now reply =
     (let eventTask = \<lparr>task_Type = taskType, task_OrgID = orgID, task_Task = BodyTask body,
                        task_QueuedOn = t1\<rparr>
      in case Marshal_task env eventTask of
           Inl err \<Rightarrow> (Some err, rc)
         | Inr eventJSON \<Rightarrow>
             let contactTask = \<lparr>task_Type = ''handle_contact_event'', task_OrgID = orgID,
                                 task_Task = ContactTask \<lparr>ct_ContactID = contactID\<rparr>,
                                 task_QueuedOn = t2\<rparr>
             in (case Marshal_task env contactTask of
                   Inl err \<Rightarrow> (Some err, rc)
                 | Inr contactJSON \<Rightarrow>
                     let epochFloat = fdiv env (float64 env now) (float64 env Second);
                         contactQueue = ''c:'' @ FormatInt orgID @ '':'' @ FormatInt contactID;
                         rc1 = Send rc ''multi'' [];
                         rc2 = Send rc1 ''rpush'' [AStr contactQueue, ABytes eventJSON];
                         rc3 = Send rc2 ''zadd''
                                 [AStr (''handler:'' @ FormatInt orgID),
                                  AStr (Sprintf_5f env (fsub env epochFloat (float64 env 10000000))),
                                  ABytes contactJSON];
                         rc4 = Send rc3 ''zincrby'' [AStr ''handler:active'', AInt 0, AInt orgID]
                     in Do rc4 ''exec'' [] reply))"

section \<open>Instances for the worked examples\<close>

text \<open>
  Stand-ins for the collaborators, used where a statement is evaluated on concrete input.
  A response body is taken to be the ID itself (empty: no ID); an attachment splits at its
  first colon.
\<close>

definition example_externals :: externals where
  "example_externals =
     \<lparr>GetBoolean = (\<lambda>body keys. if body = '''' then None else Some True),
      GetInt = (\<lambda>body keys. if body = '''' then None else Some (int (length body))),
      GetString = (\<lambda>body keys. if body = '''' then None else Some body),
      SplitAttachment = (\<lambda>a. (Split_first a '':'', drop (Suc (length (Split_first a '':''))) a)),
      Marshal_keyboard = (\<lambda>k. Inr ''keyboard''),
      Marshal_payload = (\<lambda>p. case p of SendMsgPayload m \<Rightarrow> Inr (smp_Body m)
                                      | SendFilePayload f \<Rightarrow> Inr (sfp_Body f)),
      NewWhatsAppURN = (\<lambda>s. if s = '''' then Inl (Errorf ''invalid whatsapp id'')
                             else Inr \<lparr>urn_Scheme = ''whatsapp'', urn_Path = s\<rparr>),
      NameFromFirstLastUsername = (\<lambda>first last username. first)\<rparr>"

definition example_channel :: Channel where
  "example_channel =
     \<lparr>channel_UUID = ''8eb23e93-5ecb-45ba-b726-3b064e0c56ab'', channel_Type = ''CA'',
      channel_Config = [(''auth_token'', CString ''token''), (''send_url'', CString ''https://foo.bar'')]\<rparr>"

definition example_msg :: "string \<Rightarrow> string list \<Rightarrow> Msg" where
  "example_msg text attachments =
     \<lparr>msg_ID = 10, msg_Channel = example_channel,
      msg_URN = \<lparr>urn_Scheme = ''whatsapp'', urn_Path = ''250788383383''\<rparr>,
      msg_Text = text, msg_Attachments = attachments, msg_QuickReplies = [],
      msg_ExternalID = '''', msg_ReceivedOn = 0, msg_ContactName = '''',
      msg_AlreadySeen = False\<rparr>"

text \<open>A provider that answers the \<open>n\<close>-th request of a send with the \<open>n\<close>-th body of a list.\<close>

definition scripted_server :: "string list \<Rightarrow> http_server" where
  "scripted_server bodies w req =
     (\<lparr>rr_StatusCode = 200,
       rr_Body = (if length w < length bodies then bodies ! length w else '''')\<rparr>, None)"

text \<open>
  A backend that remembers external IDs: an event is marked seen when
  \<open>WriteExternalIDSeen\<close> was called before with its external ID; writes succeed, and a status
  write finds a message unless its external ID is \<open>unknown\<close>.
\<close>

fun seen_before :: "backend_event list \<Rightarrow> string \<Rightarrow> bool" where
  "seen_before [] ext = False"
| "seen_before (EvWriteExternalIDSeen m # h) ext = (msg_ExternalID m = ext \<or> seen_before h ext)"
| "seen_before (e # h) ext = seen_before h ext"

definition example_backend :: backend where
  "example_backend =
     \<lparr>CheckExternalIDSeen = (\<lambda>h m. m\<lparr>msg_AlreadySeen := seen_before h (msg_ExternalID m)\<rparr>),
      WriteMsg = (\<lambda>h m. None),
      WriteMsgStatus = (\<lambda>h s. if status_ExternalID s = ''unknown'' then Some ErrMsgNotFound else None)\<rparr>"

definition example_message :: "string \<Rightarrow> string \<Rightarrow> moMessage" where
  "example_message ext body =
     \<lparr>mo_ID = ext, mo_Body = body, mo_Type = ''chat'', mo_SenderName = ''Ilya'', mo_FromMe = False,
      mo_Author = ''17472822486@c.us'', mo_Time = 1504208593, mo_ChatID = ''17472822486@c.us'',
      mo_MessageNumber = 100, mo_Caption = ''''\<rparr>"

definition example_ack :: "string \<Rightarrow> string \<Rightarrow> moAck" where
  "example_ack ext status =
     \<lparr>ack_ID = ext, ack_MessageNumber = 100, ack_ChatID = ''17472822486@c.us'', ack_Status = status\<rparr>"

text \<open>
  A queue environment on fixed-point numbers: the carrier counts hundred-thousandths, so
  \<open>%.5f\<close> prints it exactly.
\<close>

definition fixed_5f :: "int \<Rightarrow> string" where
  "fixed_5f v = FormatInt (v div 100000) @ ''.'' @ tl (digits (100000 + v mod 100000))"

definition example_env :: "(string, int) queue_env" where
  "example_env =
     \<lparr>Marshal_body = (\<lambda>body. Inr body),
      Marshal_task = (\<lambda>t. Inr (task_Type t @ '':queued_on='' @ FormatInt (task_QueuedOn t))),
      float64 = (\<lambda>n. n * 100000),
      fdiv = (\<lambda>a b. a * 100000 div b),
      fsub = (\<lambda>a b. a - b),
      Sprintf_5f = fixed_5f,
      QueueEmptyTask = (\<lambda>queueName taskName. [Cmd ''lpush'' [AStr queueName, AStr taskName]])\<rparr>"

section \<open>The queueing protocol in the spec's words\<close>

text \<open>
  The commands section 4.6 lists for one enqueue, to be compared with what the code sends.
  \<open>now\<close> in seconds is \<open>float64(now.UnixNano()) / float64(time.Second)\<close>; the fair-share
  score is that minus \<open>10_000_000\<close>; both are printed with \<open>%.5f\<close>.
\<close>

definition epoch_seconds :: "('b, 'f) queue_env \<Rightarrow> int \<Rightarrow> 'f" where
  "epoch_seconds env now = fdiv env (float64 env now) (float64 env Second)"

definition fresh_score :: "('b, 'f) queue_env \<Rightarrow> int \<Rightarrow> string" where
  "fresh_score env now = Sprintf_5f env (fsub env (epoch_seconds env now) (float64 env 10000000))"

definition legacy_enqueue ::
  "('b, 'f) queue_env \<Rightarrow> string \<Rightarrow> string \<Rightarrow> int \<Rightarrow> string \<Rightarrow> string \<Rightarrow> int \<Rightarrow> redis_cmd list" where
  "legacy_enqueue env queueName taskName orgID subQueue bodyJSON now =
     (if subQueue = '''' then []
      else [Cmd ''zadd'' [AStr subQueue, AStr (Sprintf_5f env (epoch_seconds env now)), ABytes bodyJSON]]) @
     [Cmd ''zadd'' [AStr (taskName @ '':'' @ FormatInt orgID), AStr (fresh_score env now), ABytes bodyJSON],
      Cmd ''zincrby'' [AStr (taskName @ '':active''), AInt 0, AInt orgID]] @
     QueueEmptyTask env queueName taskName"

definition mailroom_enqueue ::
  "('b, 'f) queue_env \<Rightarrow> int \<Rightarrow> int \<Rightarrow> string \<Rightarrow> string \<Rightarrow> int \<Rightarrow> redis_cmd list" where
  "mailroom_enqueue env orgID contactID eventJSON contactJSON now =
     [Cmd ''rpush'' [AStr (''c:'' @ FormatInt orgID @ '':'' @ FormatInt contactID), ABytes eventJSON],
      Cmd ''zadd'' [AStr (''handler:'' @ FormatInt orgID), AStr (fresh_score env now), ABytes contactJSON],
      Cmd ''zincrby'' [AStr ''handler:active'', AInt 0, AInt orgID]]"

text \<open>A command that neither opens nor closes a transaction.\<close>

definition plain_command :: "redis_cmd \<Rightarrow> bool" where
  "plain_command c = (cmd_name c \<noteq> ''multi'' \<and> cmd_name c \<noteq> ''exec'')"

section \<open>The outbound pipeline in the spec's words\<close>

text \<open>A required string key is usable when it is present, a string, and not empty.\<close>

definition configured :: "Channel \<Rightarrow> string \<Rightarrow> string \<Rightarrow> bool" where
  "configured ch key v = (v \<noteq> '''' \<and> map_of (channel_Config ch) key = Some (CString v))"

text \<open>It is lacking when it is missing, empty, or not a string.\<close>

definition lacks_valid_string :: "Channel \<Rightarrow> string \<Rightarrow> bool" where
  "lacks_valid_string ch key =
     (case map_of (channel_Config ch) key of
        None \<Rightarrow> True
      | Some (CString s) \<Rightarrow> s = ''''
      | Some v \<Rightarrow> True)"

text \<open>
  Section 4.4: the text part exists "only if there is text AND attachments \<open>\<noteq>\<close> 1, since a
  lone attachment carries the text as caption".
\<close>

definition text_part :: "Msg \<Rightarrow> bool" where
  "text_part msg = (msg_Text msg \<noteq> '''' \<and> length (msg_Attachments msg) \<noteq> 1)"

definition caption_of :: "Msg \<Rightarrow> string" where
  "caption_of msg = (if length (msg_Attachments msg) = 1 then msg_Text msg else '''')"

text \<open>The media types each version can send; its family is the text before the slash.\<close>

definition media_family :: "externals \<Rightarrow> string \<Rightarrow> string" where
  "media_family x attachment = Split_first (fst (SplitAttachment x attachment)) ''/''"

definition supported :: "externals \<Rightarrow> string \<Rightarrow> bool" where
  "supported x attachment = (media_family x attachment \<in> set [''image'', ''video'', ''audio''])"

definition supported_p0 :: "externals \<Rightarrow> string \<Rightarrow> bool" where
  "supported_p0 x attachment = (media_family x attachment = ''image'')"

text \<open>The requests of the parts, for \<open>src/handlers/chatapi/chatapi.go\<close>.\<close>

definition text_request :: "Msg \<Rightarrow> string \<Rightarrow> string \<Rightarrow> http_request" where
  "text_request msg token replies =
     part_request token ''sendMessage''
       [(''chat_id'', [urn_Path (msg_URN msg)]), (''text'', [msg_Text msg])] replies"

definition media_request :: "externals \<Rightarrow> Msg \<Rightarrow> string \<Rightarrow> string \<Rightarrow> string \<Rightarrow> http_request" where
  "media_request x msg token replies attachment =
     (let family = media_family x attachment;
          mediaURL = snd (SplitAttachment x attachment)
      in part_request token
           (if family = ''image'' then ''sendPhoto''
            else if family = ''video'' then ''sendVideo'' else ''sendAudio'')
           [(''chat_id'', [urn_Path (msg_URN msg)]),
            (if family = ''image'' then ''photo''
             else if family = ''video'' then ''video'' else ''audio'', [mediaURL]),
            (''caption'', [caption_of msg])]
           replies)"

text \<open>
  One request per attachment of a supported type, in the declared order; the keyboard goes
  with the first part only.
\<close>

fun media_requests :: "externals \<Rightarrow> Msg \<Rightarrow> string \<Rightarrow> string \<Rightarrow> string list \<Rightarrow> http_request list" where
  "media_requests x msg token replies [] = []"
| "media_requests x msg token replies (a # as) =
     (if supported x a then [media_request x msg token replies a] else []) @
     media_requests x msg token '''' as"

text \<open>
  The same for \<open>src/unnamed/part_000\<close>; \<open>enc\<close> is the JSON \<open>json.Marshal\<close> gives a payload.
\<close>

definition text_request_p0 :: "(send_payload \<Rightarrow> string) \<Rightarrow> Msg \<Rightarrow> string \<Rightarrow> string \<Rightarrow> http_request" where
  "text_request_p0 enc msg url token =
     part_request_p0 url token ''sendMessage''
       (enc (SendMsgPayload \<lparr>smp_Phone = urn_Path (msg_URN msg), smp_Body = msg_Text msg\<rparr>))"

definition file_request_p0 ::
  "(send_payload \<Rightarrow> string) \<Rightarrow> externals \<Rightarrow> Msg \<Rightarrow> string \<Rightarrow> string \<Rightarrow> string \<Rightarrow> http_request" where
  "file_request_p0 enc x msg url token attachment =
     part_request_p0 url token ''sendFile''
       (enc (SendFilePayload \<lparr>sfp_Phone = urn_Path (msg_URN msg),
                               sfp_Body = snd (SplitAttachment x attachment),
                               sfp_Filename = ''file.jpg'', sfp_Caption = caption_of msg\<rparr>))"

text \<open>The response of an exchange.\<close>

fun answer :: "exchange \<Rightarrow> RequestResponse" where
  "answer (req, rr, err) = rr"

text \<open>
  The claim about external IDs speaks of "the most recent successful part": the ID read off
  the last exchange whose outcome carries no error, if there is one.
\<close>

definition last_successful_id ::
  "(RequestResponse \<Rightarrow> string \<times> error option) \<Rightarrow> exchange list \<Rightarrow> string option" where
  "last_successful_id outcome w =
     (case filter (\<lambda>e. snd (outcome (answer e)) = None) w of
        [] \<Rightarrow> None
      | e # es \<Rightarrow> Some (fst (outcome (answer (last (e # es))))))"

text \<open>
  The invariant behind the external ID: once an exchange has been made, the status holds the
  ID read off the most recent one.
\<close>

definition id_of_last :: "(RequestResponse \<Rightarrow> string \<times> error option) \<Rightarrow> send_state \<Rightarrow> bool" where
  "id_of_last outcome s =
     (st_world s = [] \<or>
      status_ExternalID (st_status s) = fst (outcome (answer (last (st_world s)))))"

section \<open>The inbound pipeline in the spec's words\<close>

text \<open>The status event an ack is turned into, and the record it leaves in the response.\<close>

definition ack_event :: "Channel \<Rightarrow> moAck \<Rightarrow> MsgStatus" where
  "ack_event ch a = NewMsgStatusForExternalID ch (ack_ID a) (ack_status_value a)"

definition ack_item :: "MsgStatus \<Rightarrow> error option \<Rightarrow> data_item" where
  "ack_item st r =
     (if r = Some ErrMsgNotFound then InfoData ''message not found, ignored'' else StatusData st)"

text \<open>
  An answer of \<open>WriteMsgStatus\<close> that lets the handler go on: success, or "message not
  found".
\<close>

definition tolerated :: "error option \<Rightarrow> bool" where
  "tolerated r = (r = None \<or> r = Some ErrMsgNotFound)"

text \<open>
  The backend's answers to the status writes of a list of acks, each asked after the ones
  before it.
\<close>

fun ack_replies :: "backend \<Rightarrow> Channel \<Rightarrow> backend_event list \<Rightarrow> moAck list \<Rightarrow> error option list" where
  "ack_replies b ch h [] = []"
| "ack_replies b ch h (a # as) =
     WriteMsgStatus b h (ack_event ch a) #
     ack_replies b ch (h @ [EvWriteMsgStatus (ack_event ch a) (WriteMsgStatus b h (ack_event ch a))]) as"

fun loop_history :: "loop_result \<Rightarrow> backend_event list" where
  "loop_history (Inl (h, r)) = h"
| "loop_history (Inr (h, events, items)) = h"

text \<open>
  What the handler asks the backend for one inbound message, as a triple: the event built,
  the event \<open>CheckExternalIDSeen\<close> returned, and the event written.
\<close>

fun message_calls :: "Msg \<times> Msg \<times> Msg \<Rightarrow> backend_event list" where
  "message_calls (ev, event0, event) =
     [EvCheckExternalIDSeen ev event0, EvWriteMsg event None, EvWriteExternalIDSeen event]"

fun written :: "Msg \<times> Msg \<times> Msg \<Rightarrow> Msg" where
  "written (ev, event0, event) = event"

text \<open>How such a triple belongs to a message of the payload.\<close>

fun handles :: "moMessage \<Rightarrow> Msg \<times> Msg \<times> Msg \<Rightarrow> bool" where
  "handles m (ev, event0, event) =
     (msg_ExternalID ev = mo_ID m \<and>
      event = (if mo_Type m = ''image'' then WithAttachment event0 (mo_Body m) else event0))"

definition inbound :: "moMessage list \<Rightarrow> moMessage list" where
  "inbound ms = filter (\<lambda>m. mo_FromMe m = False) ms"

fun is_info :: "data_item \<Rightarrow> bool" where
  "is_info (InfoData s) = True"
| "is_info d = False"

text \<open>What an entry of the history is, and whether its message is marked as already seen.\<close>

fun call_kind :: "backend_event \<Rightarrow> string \<times> bool" where
  "call_kind (EvCheckExternalIDSeen ev event0) = (''CheckExternalIDSeen'', msg_AlreadySeen event0)"
| "call_kind (EvWriteMsg event r) = (''WriteMsg'', msg_AlreadySeen event)"
| "call_kind (EvWriteExternalIDSeen event) = (''WriteExternalIDSeen'', msg_AlreadySeen event)"
| "call_kind (EvWriteMsgStatus st r) = (''WriteMsgStatus'', False)"

text \<open>
  The invariant behind the status: \<open>hasError\<close> can only be false when an exchange has been
  made and the most recent one succeeded.
\<close>

definition clear_by_last :: "(RequestResponse \<Rightarrow> string \<times> error option) \<Rightarrow> send_state \<Rightarrow> bool" where
  "clear_by_last outcome s =
     (st_hasError s \<or>
      (st_world s \<noteq> [] \<and> snd (outcome (answer (last (st_world s)))) = None))"

section \<open>Properties\<close>

subsection \<open>Transactions\<close>

lemma server_effects_queue:
  "list_all plain_command cs \<Longrightarrow>
   server_effects ok (Some q) (cs @ [Cmd ''exec'' []]) = (if ok then q @ cs else [])"
  by (induction cs arbitrary: q) (auto simp: plain_command_def)

lemma server_effects_transaction:
  "list_all plain_command cs \<Longrightarrow>
   server_effects ok None (Cmd ''multi'' [] # cs @ [Cmd ''exec'' []]) = (if ok then cs else [])"
  using server_effects_queue [of cs ok "[]"] by simp

lemma count_plain:
  "list_all plain_command cs \<Longrightarrow>
   filter (\<lambda>c. cmd_name c = ''multi'') cs = [] \<and> filter (\<lambda>c. cmd_name c = ''exec'') cs = []"
  by (induction cs) (auto simp: plain_command_def)

subsection \<open>The legacy queue\<close>

lemma queueTask_sent:
  assumes "Marshal_body env body = Inr bodyJSON"
  shows "queueTask env rc queueName taskName orgID subQueue body now reply =
           (reply, rc @ Cmd ''multi'' [] #
                   legacy_enqueue env queueName taskName orgID subQueue bodyJSON now @ [Cmd ''exec'' []])"
  using assms
  by (simp add: queueTask_def legacy_enqueue_def Send_def Do_def Let_def fresh_score_def
                epoch_seconds_def)

lemma legacy_enqueue_plain:
  "list_all plain_command (QueueEmptyTask env queueName taskName) \<Longrightarrow>
   list_all plain_command (legacy_enqueue env queueName taskName orgID subQueue bodyJSON now)"
  by (simp add: legacy_enqueue_def plain_command_def)

text \<open>
  C2.  A legacy enqueue whose body encodes, on a fresh connection, sends \<open>multi\<close>, then the
  commands of section 4.6 in their order (the \<open>zadd\<close> to the sub-queue with score now only
  when \<open>subQueue\<close> is non-empty, the \<open>zadd\<close> to \<open>taskName:orgID\<close> with score now minus
  10,000,000, the \<open>zincrby\<close> of \<open>taskName:active\<close> by 0 for the org, and the commands of the
  Celery wake-up task for \<open>queueName\<close>), then \<open>exec\<close>, and returns the reply to \<open>exec\<close>.
  There is exactly one \<open>multi\<close> and one \<open>exec\<close>; on the server the commands take effect
  together when \<open>exec\<close> succeeds, and none does when it fails.  The wake-up task's own
  commands are assumed not to open or close a transaction.
\<close>

theorem queueTask_transaction:
  assumes enc: "Marshal_body env body = Inr bodyJSON"
      and wake: "list_all plain_command (QueueEmptyTask env queueName taskName)"
  shows "queueTask env [] queueName taskName orgID subQueue body now reply =
           (reply, Cmd ''multi'' [] #
                   legacy_enqueue env queueName taskName orgID subQueue bodyJSON now @ [Cmd ''exec'' []])
         \<and> length (filter (\<lambda>c. cmd_name c = ''multi'')
              (snd (queueTask env [] queueName taskName orgID subQueue body now reply))) = 1
         \<and> length (filter (\<lambda>c. cmd_name c = ''exec'')
              (snd (queueTask env [] queueName taskName orgID subQueue body now reply))) = 1
         \<and> server_effects (reply = None) None
              (snd (queueTask env [] queueName taskName orgID subQueue body now reply)) =
             (if reply = None then legacy_enqueue env queueName taskName orgID subQueue bodyJSON now
              else [])"
proof -
  let ?cs = "legacy_enqueue env queueName taskName orgID subQueue bodyJSON now"
  have plain: "list_all plain_command ?cs"
    using wake by (rule legacy_enqueue_plain)
  have sent: "queueTask env [] queueName taskName orgID subQueue body now reply =
               (reply, Cmd ''multi'' [] # ?cs @ [Cmd ''exec'' []])"
    using queueTask_sent [OF enc, of "[]"] by simp
  show ?thesis
    using sent count_plain [OF plain] server_effects_transaction [OF plain] by simp
qed

theorem queueTask_transaction_witness:
  "Marshal_body example_env ''{}'' = Inr ''{}''
   \<and> list_all plain_command (QueueEmptyTask example_env ''handler'' ''handle_event_task'')
   \<and> snd (queueTask example_env [] ''handler'' ''handle_event_task'' 7 ''ch:12'' ''{}''
            1500000000123456789 None) =
       [Cmd ''multi'' [],
        Cmd ''zadd'' [AStr ''ch:12'', AStr ''1500000000.12345'', ABytes ''{}''],
        Cmd ''zadd'' [AStr ''handle_event_task:7'', AStr ''1490000000.12345'', ABytes ''{}''],
        Cmd ''zincrby'' [AStr ''handle_event_task:active'', AInt 0, AInt 7],
        Cmd ''lpush'' [AStr ''handler'', AStr ''handle_event_task''],
        Cmd ''exec'' []]
   \<and> server_effects False None
        (snd (queueTask example_env [] ''handler'' ''handle_event_task'' 7 ''ch:12'' ''{}''
               1500000000123456789 (Some (Errorf ''connection reset'')))) = []"
proof -
  have enc: "Marshal_body example_env ''{}'' = Inr ''{}''"
    by (simp add: example_env_def)
  have wake: "list_all plain_command (QueueEmptyTask example_env ''handler'' ''handle_event_task'')"
    by (simp add: example_env_def plain_command_def)
  have cmds: "legacy_enqueue example_env ''handler'' ''handle_event_task'' 7 ''ch:12'' ''{}''
                1500000000123456789 =
       [Cmd ''zadd'' [AStr ''ch:12'', AStr ''1500000000.12345'', ABytes ''{}''],
        Cmd ''zadd'' [AStr ''handle_event_task:7'', AStr ''1490000000.12345'', ABytes ''{}''],
        Cmd ''zincrby'' [AStr ''handle_event_task:active'', AInt 0, AInt 7],
        Cmd ''lpush'' [AStr ''handler'', AStr ''handle_event_task'']]"
    by (simp add: legacy_enqueue_def fresh_score_def epoch_seconds_def example_env_def Second_def
                  fixed_5f_def FormatInt_def digits.simps digit_char_def)
  show ?thesis
    using queueTask_transaction [OF enc wake, of 7 "''ch:12''" 1500000000123456789 None]
          queueTask_transaction [OF enc wake, of 7 "''ch:12''" 1500000000123456789
            "Some (Errorf ''connection reset'')"]
          enc wake cmds
    by simp
qed

subsection \<open>The mailroom queue\<close>

lemma mailroom_enqueue_plain:
  "list_all plain_command (mailroom_enqueue env orgID contactID eventJSON contactJSON now)"
  by (simp add: mailroom_enqueue_def plain_command_def)

text \<open>
  C3.  A mailroom enqueue whose two tasks encode sends, inside one \<open>multi\<close> ... \<open>exec\<close>
  bracket on a fresh connection: \<open>rpush c:orgID:contactID\<close> with the JSON of the event task
  \<open>{type, org_id, task: body, queued_on}\<close>, \<open>zadd handler:orgID\<close> with score now minus
  10,000,000 printed with \<open>%.5f\<close> and the JSON of the contact task
  \<open>{type: "handle_contact_event", org_id, task: {contact_id}, queued_on}\<close>, and
  \<open>zincrby handler:active 0 orgID\<close>.  The three take effect together when \<open>exec\<close> succeeds and
  not at all when it fails.
\<close>

theorem queueMailroomTask_transaction:
  assumes ev: "Marshal_task env \<lparr>task_Type = taskType, task_OrgID = orgID,
                 task_Task = BodyTask body, task_QueuedOn = t1\<rparr> = Inr eventJSON"
      and ct: "Marshal_task env \<lparr>task_Type = ''handle_contact_event'', task_OrgID = orgID,
                 task_Task = ContactTask \<lparr>ct_ContactID = contactID\<rparr>, task_QueuedOn = t2\<rparr> = Inr contactJSON"
  shows "queueMailroomTask env [] taskType orgID contactID body t1 t2 now reply =
           (reply, Cmd ''multi'' [] #
                   mailroom_enqueue env orgID contactID eventJSON contactJSON now @ [Cmd ''exec'' []])
         \<and> length (filter (\<lambda>c. cmd_name c = ''multi'')
              (snd (queueMailroomTask env [] taskType orgID contactID body t1 t2 now reply))) = 1
         \<and> length (filter (\<lambda>c. cmd_name c = ''exec'')
              (snd (queueMailroomTask env [] taskType orgID contactID body t1 t2 now reply))) = 1
         \<and> server_effects (reply = None) None
              (snd (queueMailroomTask env [] taskType orgID contactID body t1 t2 now reply)) =
             (if reply = None then mailroom_enqueue env orgID contactID eventJSON contactJSON now
              else [])"
proof -
  let ?cs = "mailroom_enqueue env orgID contactID eventJSON contactJSON now"
  have plain: "list_all plain_command ?cs"
    by (rule mailroom_enqueue_plain)
  have sent: "queueMailroomTask env [] taskType orgID contactID body t1 t2 now reply =
               (reply, Cmd ''multi'' [] # ?cs @ [Cmd ''exec'' []])"
    using ev ct
    by (simp add: queueMailroomTask_def mailroom_enqueue_def Send_def Do_def Let_def
                  fresh_score_def epoch_seconds_def)
  show ?thesis
    using sent count_plain [OF plain] server_effects_transaction [OF plain] by simp
qed

theorem queueMailroomTask_transaction_witness:
  "Marshal_task example_env \<lparr>task_Type = ''msg_event'', task_OrgID = 7,
     task_Task = BodyTask ''{}'', task_QueuedOn = 1500000000123456789\<rparr> =
     Inr ''msg_event:queued_on=1500000000123456789''
   \<and> Marshal_task example_env \<lparr>task_Type = ''handle_contact_event'', task_OrgID = 7,
     task_Task = ContactTask \<lparr>ct_ContactID = 12\<rparr>, task_QueuedOn = 1500000000123456999\<rparr> =
     Inr ''handle_contact_event:queued_on=1500000000123456999''
   \<and> snd (queueMailroomTask example_env [] ''msg_event'' 7 12 ''{}''
            1500000000123456789 1500000000123456999 1500000000123457000 None) =
       [Cmd ''multi'' [],
        Cmd ''rpush'' [AStr ''c:7:12'', ABytes ''msg_event:queued_on=1500000000123456789''],
        Cmd ''zadd'' [AStr ''handler:7'', AStr ''1490000000.12345'',
                      ABytes ''handle_contact_event:queued_on=1500000000123456999''],
        Cmd ''zincrby'' [AStr ''handler:active'', AInt 0, AInt 7],
        Cmd ''exec'' []]
   \<and> server_effects False None
        (snd (queueMailroomTask example_env [] ''msg_event'' 7 12 ''{}''
               1500000000123456789 1500000000123456999 1500000000123457000
               (Some (Errorf ''connection reset'')))) = []"
proof -
  have ev: "Marshal_task example_env \<lparr>task_Type = ''msg_event'', task_OrgID = 7,
              task_Task = BodyTask ''{}'', task_QueuedOn = 1500000000123456789\<rparr> =
            Inr ''msg_event:queued_on=1500000000123456789''"
    by (simp add: example_env_def FormatInt_def digits.simps digit_char_def)
  have ct: "Marshal_task example_env \<lparr>task_Type = ''handle_contact_event'', task_OrgID = 7,
              task_Task = ContactTask \<lparr>ct_ContactID = 12\<rparr>, task_QueuedOn = 1500000000123456999\<rparr> =
            Inr ''handle_contact_event:queued_on=1500000000123456999''"
    by (simp add: example_env_def FormatInt_def digits.simps digit_char_def)
  have cmds: "mailroom_enqueue example_env 7 12 ''msg_event:queued_on=1500000000123456789''
                ''handle_contact_event:queued_on=1500000000123456999'' 1500000000123457000 =
       [Cmd ''rpush'' [AStr ''c:7:12'', ABytes ''msg_event:queued_on=1500000000123456789''],
        Cmd ''zadd'' [AStr ''handler:7'', AStr ''1490000000.12345'',
                      ABytes ''handle_contact_event:queued_on=1500000000123456999''],
        Cmd ''zincrby'' [AStr ''handler:active'', AInt 0, AInt 7]]"
    by (simp add: mailroom_enqueue_def fresh_score_def epoch_seconds_def example_env_def Second_def
                  fixed_5f_def FormatInt_def digits.simps digit_char_def)
  show ?thesis
    using queueMailroomTask_transaction [OF ev ct, of 1500000000123457000 None]
          queueMailroomTask_transaction [OF ev ct, of 1500000000123457000
            "Some (Errorf ''connection reset'')"]
          ev ct cmds
    by simp
qed

subsection \<open>Outbound: configuration and the external ID\<close>

lemma configured_assert:
  "configured ch key v \<Longrightarrow> assert_string (ConfigForKey ch key (CString '''')) = (v, True)"
  by (simp add: configured_def ConfigForKey_def)

lemma lacking_assert:
  "lacks_valid_string ch key \<Longrightarrow>
   (case assert_string (ConfigForKey ch key (CString '''')) of (s, isStr) \<Rightarrow> \<not> isStr \<or> s = '''')"
  by (auto simp: lacks_valid_string_def ConfigForKey_def split: option.splits config_value.splits)

lemma SendMsg_lacking:
  assumes "lacks_valid_string (msg_Channel msg) ConfigAuthToken"
  shows "SendMsg x srv msg = (Inl (Errorf ''invalid auth token config''), [])"
  using lacking_assert [OF assms]
  by (auto simp: SendMsg_def Let_def split: prod.splits)

lemma SendMsg_p0_lacking:
  assumes "lacks_valid_string (msg_Channel msg) ConfigAuthToken"
  shows "SendMsg_p0 x srv msg = (Inl (Errorf ''invalid auth token config''), [])"
  using lacking_assert [OF assms]
  by (auto simp: SendMsg_p0_def Let_def split: prod.splits)

lemma sendMsgPart_result:
  "\<exists>log rr err0. sendMsgPart x srv w msg token path form replies =
     ((fst (part_outcome x rr), log, snd (part_outcome x rr)),
      w @ [(part_request token path form replies, rr, err0)])"
  by (simp add: sendMsgPart_def MakeHTTPRequest_def Let_def split: prod.splits)

lemma sendMsgPart_p0_result:
  assumes "\<forall>p. Marshal_payload x p = Inr (enc p)"
  shows "\<exists>log rr err0. sendMsgPart_p0 x srv w msg url token path payload =
     ((fst (part_outcome_p0 x rr), log, snd (part_outcome_p0 x rr)),
      w @ [(part_request_p0 url token path (enc payload), rr, err0)])"
  using assms
  by (simp add: sendMsgPart_p0_def MakeHTTPRequest_def Let_def split: prod.splits)

lemma record_part_id_of_last:
  "id_of_last outcome
     (record_part ((fst (outcome rr), log, err), w @ [(req, rr, err0)]) s)"
  by (simp add: id_of_last_def record_part_def SetExternalID_def AddLog_def)

lemma id_of_last_replies [simp]:
  "id_of_last outcome (s\<lparr>st_replies := r\<rparr>) = id_of_last outcome s"
  by (simp add: id_of_last_def)

lemma send_attachment_id_of_last:
  "id_of_last (part_outcome x) s \<Longrightarrow>
   id_of_last (part_outcome x) (send_attachment x srv msg token caption a s)"
proof -
  assume inv: "id_of_last (part_outcome x) s"
  have media: "id_of_last (part_outcome x) (send_media x srv msg token path field mediaURL caption s)"
    for path field mediaURL
  proof -
    obtain log rr err0 where
      "sendMsgPart x srv (st_world s) msg token path
         [(''chat_id'', [urn_Path (msg_URN msg)]), (field, [mediaURL]), (''caption'', [caption])]
         (st_replies s) =
       ((fst (part_outcome x rr), log, snd (part_outcome x rr)),
        st_world s @ [(part_request token path
         [(''chat_id'', [urn_Path (msg_URN msg)]), (field, [mediaURL]), (''caption'', [caption])]
         (st_replies s), rr, err0)])"
      using sendMsgPart_result by blast
    then show ?thesis
      by (simp add: send_media_def record_part_id_of_last)
  qed
  have unknown: "id_of_last (part_outcome x) (s\<lparr>st_status := AddLog (st_status s) l, st_hasError := True\<rparr>)"
    for l
    using inv by (simp add: id_of_last_def AddLog_def)
  show ?thesis
    by (simp add: send_attachment_def Let_def media unknown split: prod.splits)
qed

lemma send_attachments_id_of_last:
  "id_of_last (part_outcome x) s \<Longrightarrow>
   id_of_last (part_outcome x) (send_attachments x srv msg token caption as s)"
  by (induction as arbitrary: s) (simp_all add: send_attachment_id_of_last)

lemma send_attachment_p0_id_of_last:
  assumes enc: "\<forall>p. Marshal_payload x p = Inr (enc p)"
      and inv: "id_of_last (part_outcome_p0 x) s"
  shows "id_of_last (part_outcome_p0 x) (send_attachment_p0 x srv msg url token caption a s)"
proof -
  have sendfile: "id_of_last (part_outcome_p0 x)
     (record_part (sendMsgPart_p0 x srv (st_world s) msg url token ''sendFile'' payload) s)"
    for payload
  proof -
    obtain log rr err0 where
      "sendMsgPart_p0 x srv (st_world s) msg url token ''sendFile'' payload =
       ((fst (part_outcome_p0 x rr), log, snd (part_outcome_p0 x rr)),
        st_world s @ [(part_request_p0 url token ''sendFile'' (enc payload), rr, err0)])"
      using sendMsgPart_p0_result [OF enc] by blast
    then show ?thesis
      by (simp add: record_part_id_of_last)
  qed
  have unknown: "id_of_last (part_outcome_p0 x) (s\<lparr>st_status := AddLog (st_status s) l, st_hasError := True\<rparr>)"
    for l
    using inv by (simp add: id_of_last_def AddLog_def)
  show ?thesis
    by (simp add: send_attachment_p0_def Let_def sendfile unknown split: prod.splits)
qed

lemma send_attachments_p0_id_of_last:
  assumes enc: "\<forall>p. Marshal_payload x p = Inr (enc p)"
  shows "id_of_last (part_outcome_p0 x) s \<Longrightarrow>
   id_of_last (part_outcome_p0 x) (send_attachments_p0 x srv msg url token caption as s)"
  by (induction as arbitrary: s) (simp_all add: send_attachment_p0_id_of_last [OF enc])

lemma SendMsg_external_id:
  assumes auth: "configured (msg_Channel msg) ConfigAuthToken token"
      and kb: "keyboard_replies x (msg_QuickReplies msg) = Inr replies"
  shows "\<exists>st. fst (SendMsg x srv msg) = Inr st \<and>
           (snd (SendMsg x srv msg) = [] \<or>
            status_ExternalID st = fst (part_outcome x (answer (last (snd (SendMsg x srv msg))))))"
proof -
  have a: "assert_string (ConfigForKey (msg_Channel msg) ConfigAuthToken (CString '''')) = (token, True)"
    using auth by (rule configured_assert)
  have t: "token \<noteq> ''''"
    using auth by (simp_all add: configured_def)
  define s0 where "s0 = \<lparr>st_status = NewMsgStatusForID (msg_Channel msg) (msg_ID msg) MsgErrored,
                          st_hasError = True, st_replies = replies, st_world = []\<rparr>"
  define s1 where "s1 = (if msg_Text msg \<noteq> '''' \<and>
                            (if length (msg_Attachments msg) = 1 then msg_Text msg else '''') = ''''
                         then (record_part
                                 (sendMsgPart x srv (st_world s0) msg token ''sendMessage''
                                    [(''chat_id'', [urn_Path (msg_URN msg)]), (''text'', [msg_Text msg])]
                                    (st_replies s0)) s0)\<lparr>st_replies := ''''\<rparr>
                         else s0)"
  define s2 where "s2 = send_attachments x srv msg token
                          (if length (msg_Attachments msg) = 1 then msg_Text msg else '''')
                          (msg_Attachments msg) s1"
  have i0: "id_of_last (part_outcome x) s0"
    by (simp add: id_of_last_def s0_def)
  have i1: "id_of_last (part_outcome x) s1"
  proof -
    obtain log rr err0 where
      "sendMsgPart x srv (st_world s0) msg token ''sendMessage''
         [(''chat_id'', [urn_Path (msg_URN msg)]), (''text'', [msg_Text msg])] (st_replies s0) =
       ((fst (part_outcome x rr), log, snd (part_outcome x rr)),
        st_world s0 @ [(part_request token ''sendMessage''
         [(''chat_id'', [urn_Path (msg_URN msg)]), (''text'', [msg_Text msg])] (st_replies s0), rr, err0)])"
      using sendMsgPart_result by blast
    then show ?thesis
      using i0 by (simp add: s1_def record_part_id_of_last)
  qed
  have i2: "id_of_last (part_outcome x) s2"
    unfolding s2_def using i1 by (rule send_attachments_id_of_last)
  have r: "SendMsg x srv msg =
             (Inr (if \<not> st_hasError s2 then SetStatus (st_status s2) MsgWired else st_status s2),
              st_world s2)"
    unfolding SendMsg_def using t
    by (simp add: a kb Let_def s0_def s1_def s2_def)
  show ?thesis
    using i2 by (auto simp: r id_of_last_def SetStatus_def)
qed

lemma SendMsg_p0_external_id:
  assumes auth: "configured (msg_Channel msg) ConfigAuthToken token"
      and url: "configured (msg_Channel msg) ConfigSendURL url"
      and enc: "\<forall>p. Marshal_payload x p = Inr (enc p)"
  shows "\<exists>st. fst (SendMsg_p0 x srv msg) = Inr st \<and>
           (snd (SendMsg_p0 x srv msg) = [] \<or>
            status_ExternalID st = fst (part_outcome_p0 x (answer (last (snd (SendMsg_p0 x srv msg))))))"
proof -
  have a: "assert_string (ConfigForKey (msg_Channel msg) ConfigAuthToken (CString '''')) = (token, True)"
    using auth by (rule configured_assert)
  have u: "assert_string (ConfigForKey (msg_Channel msg) ConfigSendURL (CString '''')) = (url, True)"
    using url by (rule configured_assert)
  have t: "token \<noteq> ''''" "url \<noteq> ''''"
    using auth url by (simp_all add: configured_def)
  define s0 where "s0 = \<lparr>st_status = NewMsgStatusForID (msg_Channel msg) (msg_ID msg) MsgErrored,
                          st_hasError = True, st_replies = '''', st_world = []\<rparr>"
  define s1 where "s1 = (if msg_Text msg \<noteq> '''' \<and>
                            (if length (msg_Attachments msg) = 1 then msg_Text msg else '''') = ''''
                         then record_part
                                (sendMsgPart_p0 x srv (st_world s0) msg url token ''sendMessage''
                                   (SendMsgPayload \<lparr>smp_Phone = urn_Path (msg_URN msg),
                                                     smp_Body = msg_Text msg\<rparr>)) s0
                         else s0)"
  define s2 where "s2 = send_attachments_p0 x srv msg url token
                          (if length (msg_Attachments msg) = 1 then msg_Text msg else '''')
                          (msg_Attachments msg) s1"
  have i0: "id_of_last (part_outcome_p0 x) s0"
    by (simp add: id_of_last_def s0_def)
  have i1: "id_of_last (part_outcome_p0 x) s1"
  proof -
    obtain log rr err0 where
      "sendMsgPart_p0 x srv (st_world s0) msg url token ''sendMessage''
         (SendMsgPayload \<lparr>smp_Phone = urn_Path (msg_URN msg), smp_Body = msg_Text msg\<rparr>) =
       ((fst (part_outcome_p0 x rr), log, snd (part_outcome_p0 x rr)),
        st_world s0 @ [(part_request_p0 url token ''sendMessage''
          (enc (SendMsgPayload \<lparr>smp_Phone = urn_Path (msg_URN msg), smp_Body = msg_Text msg\<rparr>)), rr, err0)])"
      using sendMsgPart_p0_result [OF enc] by blast
    then show ?thesis
      using i0 by (simp add: s1_def record_part_id_of_last)
  qed
  have i2: "id_of_last (part_outcome_p0 x) s2"
    unfolding s2_def using i1 by (rule send_attachments_p0_id_of_last [OF enc])
  have r: "SendMsg_p0 x srv msg =
             (Inr (if \<not> st_hasError s2 then SetStatus (st_status s2) MsgWired else st_status s2),
              st_world s2)"
    unfolding SendMsg_p0_def using t
    by (simp add: a u Let_def s0_def s1_def s2_def)
  show ?thesis
    using i2 by (auto simp: r id_of_last_def SetStatus_def)
qed

lemma part_outcome_failed: "snd (part_outcome x rr) \<noteq> None \<Longrightarrow> fst (part_outcome x rr) = ''''"
  by (auto simp: part_outcome_def split: option.splits if_splits)

lemma part_outcome_p0_failed: "snd (part_outcome_p0 x rr) \<noteq> None \<Longrightarrow> fst (part_outcome_p0 x rr) = ''''"
  by (auto simp: part_outcome_p0_def split: option.splits)

subsection \<open>Outbound: the requests sent\<close>

lemma record_part_world [simp]: "st_world (record_part r s) = snd r"
  by (simp add: record_part_def split: prod.splits)

lemma record_part_replies [simp]: "st_replies (record_part r s) = st_replies s"
  by (simp add: record_part_def split: prod.splits)

lemma sendMsgPart_world:
  "snd (sendMsgPart x srv w msg token path form replies) =
     w @ [(part_request token path form replies,
           srv w (part_request token path form replies))]"
  by (simp add: sendMsgPart_def MakeHTTPRequest_def Let_def split: prod.splits)

lemma sendMsgPart_p0_world:
  assumes "\<forall>p. Marshal_payload x p = Inr (enc p)"
  shows "snd (sendMsgPart_p0 x srv w msg url token path payload) =
     w @ [(part_request_p0 url token path (enc payload),
           srv w (part_request_p0 url token path (enc payload)))]"
  using assms
  by (simp add: sendMsgPart_p0_def MakeHTTPRequest_def Let_def split: prod.splits)

lemma send_attachment_requests:
  "map fst (st_world (send_attachment x srv msg token (caption_of msg) a s)) =
     map fst (st_world s) @ (if supported x a then [media_request x msg token (st_replies s) a] else [])"
  by (cases "SplitAttachment x a")
     (simp add: send_attachment_def send_media_def supported_def media_family_def media_request_def
        sendMsgPart_world Let_def)

lemma send_attachments_requests:
  "map fst (st_world (send_attachments x srv msg token (caption_of msg) as s)) =
     map fst (st_world s) @ media_requests x msg token (st_replies s) as"
proof (induction as arbitrary: s)
  case Nil
  show ?case by simp
next
  case (Cons a as)
  show ?case
    by (simp add: Cons.IH send_attachment_requests)
qed

lemma send_attachment_p0_requests:
  assumes "\<forall>p. Marshal_payload x p = Inr (enc p)"
  shows "map fst (st_world (send_attachment_p0 x srv msg url token (caption_of msg) a s)) =
     map fst (st_world s) @ (if supported_p0 x a then [file_request_p0 enc x msg url token a] else [])"
  by (cases "SplitAttachment x a")
     (simp add: send_attachment_p0_def supported_p0_def media_family_def file_request_p0_def
        sendMsgPart_p0_world [OF assms] Let_def)

lemma send_attachments_p0_requests:
  assumes "\<forall>p. Marshal_payload x p = Inr (enc p)"
  shows "map fst (st_world (send_attachments_p0 x srv msg url token (caption_of msg) as s)) =
     map fst (st_world s) @ map (file_request_p0 enc x msg url token) (filter (supported_p0 x) as)"
proof (induction as arbitrary: s)
  case Nil
  show ?case by simp
next
  case (Cons a as)
  show ?case
    by (simp add: Cons.IH send_attachment_p0_requests [OF assms])
qed

lemma text_condition:
  "(msg_Text msg \<noteq> '''' \<and> caption_of msg = '''') = text_part msg"
  by (auto simp: caption_of_def text_part_def)

lemma SendMsg_p0_unfold:
  assumes auth: "configured (msg_Channel msg) ConfigAuthToken token"
      and url: "configured (msg_Channel msg) ConfigSendURL url"
  shows "SendMsg_p0 x srv msg =
     (let s0 = \<lparr>st_status = NewMsgStatusForID (msg_Channel msg) (msg_ID msg) MsgErrored,
                st_hasError = True, st_replies = '''', st_world = []\<rparr>;
          s1 = (if text_part msg
                then record_part
                       (sendMsgPart_p0 x srv [] msg url token ''sendMessage''
                          (SendMsgPayload \<lparr>smp_Phone = urn_Path (msg_URN msg),
                                            smp_Body = msg_Text msg\<rparr>)) s0
                else s0);
          s2 = send_attachments_p0 x srv msg url token (caption_of msg) (msg_Attachments msg) s1
      in (Inr (if \<not> st_hasError s2 then SetStatus (st_status s2) MsgWired else st_status s2),
          st_world s2))"
proof -
  have a: "assert_string (ConfigForKey (msg_Channel msg) ConfigAuthToken (CString '''')) = (token, True)"
    using auth by (rule configured_assert)
  have u: "assert_string (ConfigForKey (msg_Channel msg) ConfigSendURL (CString '''')) = (url, True)"
    using url by (rule configured_assert)
  have t: "token \<noteq> ''''" "url \<noteq> ''''"
    using auth url by (simp_all add: configured_def)
  show ?thesis
    unfolding SendMsg_p0_def text_part_def caption_of_def
    using t by (auto simp: a u Let_def)
qed

lemma SendMsg_unfold:
  assumes auth: "configured (msg_Channel msg) ConfigAuthToken token"
      and kb: "keyboard_replies x (msg_QuickReplies msg) = Inr replies"
  shows "SendMsg x srv msg =
     (let s0 = \<lparr>st_status = NewMsgStatusForID (msg_Channel msg) (msg_ID msg) MsgErrored,
                st_hasError = True, st_replies = replies, st_world = []\<rparr>;
          s1 = (if text_part msg
                then (record_part
                        (sendMsgPart x srv [] msg token ''sendMessage''
                           [(''chat_id'', [urn_Path (msg_URN msg)]), (''text'', [msg_Text msg])]
                           replies) s0)\<lparr>st_replies := ''''\<rparr>
                else s0);
          s2 = send_attachments x srv msg token (caption_of msg) (msg_Attachments msg) s1
      in (Inr (if \<not> st_hasError s2 then SetStatus (st_status s2) MsgWired else st_status s2),
          st_world s2))"
proof -
  have a: "assert_string (ConfigForKey (msg_Channel msg) ConfigAuthToken (CString '''')) = (token, True)"
    using auth by (rule configured_assert)
  have t: "token \<noteq> ''''"
    using auth by (simp_all add: configured_def)
  show ?thesis
    unfolding SendMsg_def text_part_def caption_of_def
    using t by (auto simp: a kb Let_def)
qed

lemma SendMsg_p0_requests:
  assumes auth: "configured (msg_Channel msg) ConfigAuthToken token"
      and url: "configured (msg_Channel msg) ConfigSendURL url"
      and enc: "\<forall>p. Marshal_payload x p = Inr (enc p)"
  shows "map fst (snd (SendMsg_p0 x srv msg)) =
           (if text_part msg then [text_request_p0 enc msg url token] else []) @
           map (file_request_p0 enc x msg url token) (filter (supported_p0 x) (msg_Attachments msg))"
  by (simp add: SendMsg_p0_unfold [OF auth url] Let_def send_attachments_p0_requests [OF enc]
        sendMsgPart_p0_world [OF enc] text_request_p0_def)

lemma SendMsg_requests:
  assumes auth: "configured (msg_Channel msg) ConfigAuthToken token"
      and kb: "keyboard_replies x (msg_QuickReplies msg) = Inr replies"
  shows "map fst (snd (SendMsg x srv msg)) =
           (if text_part msg
            then text_request msg token replies # media_requests x msg token '''' (msg_Attachments msg)
            else media_requests x msg token replies (msg_Attachments msg))"
  by (simp add: SendMsg_unfold [OF auth kb] Let_def send_attachments_requests
        sendMsgPart_world text_request_def)

lemma length_media_requests:
  "length (media_requests x msg token replies as) = length (filter (supported x) as)"
  by (induction as arbitrary: replies) auto

subsection \<open>Outbound: what decides the status\<close>

lemma record_part_clear_by_last:
  "clear_by_last outcome
     (record_part ((ext, log, snd (outcome rr)), w @ [(req, rr, err0)]) s)"
  by (cases "snd (outcome rr)") (simp_all add: clear_by_last_def record_part_def)

lemma clear_by_last_replies [simp]:
  "clear_by_last outcome (s\<lparr>st_replies := r\<rparr>) = clear_by_last outcome s"
  by (simp add: clear_by_last_def)

lemma send_attachment_clear_by_last:
  "clear_by_last (part_outcome x) (send_attachment x srv msg token caption a s)"
proof -
  have media: "clear_by_last (part_outcome x) (send_media x srv msg token path field mediaURL caption s)"
    for path field mediaURL
  proof -
    obtain log rr err0 where
      "sendMsgPart x srv (st_world s) msg token path
         [(''chat_id'', [urn_Path (msg_URN msg)]), (field, [mediaURL]), (''caption'', [caption])]
         (st_replies s) =
       ((fst (part_outcome x rr), log, snd (part_outcome x rr)),
        st_world s @ [(part_request token path
         [(''chat_id'', [urn_Path (msg_URN msg)]), (field, [mediaURL]), (''caption'', [caption])]
         (st_replies s), rr, err0)])"
      using sendMsgPart_result by blast
    then show ?thesis
      by (simp add: send_media_def record_part_clear_by_last)
  qed
  have unknown: "clear_by_last (part_outcome x) (s\<lparr>st_status := st, st_hasError := True\<rparr>)" for st
    by (simp add: clear_by_last_def)
  show ?thesis
    by (simp add: send_attachment_def Let_def media unknown split: prod.splits)
qed

lemma send_attachments_clear_by_last:
  "clear_by_last (part_outcome x) s \<Longrightarrow>
   clear_by_last (part_outcome x) (send_attachments x srv msg token caption as s)"
  by (induction as arbitrary: s) (simp_all add: send_attachment_clear_by_last)

lemma send_attachment_p0_clear_by_last:
  assumes enc: "\<forall>p. Marshal_payload x p = Inr (enc p)"
  shows "clear_by_last (part_outcome_p0 x) (send_attachment_p0 x srv msg url token caption a s)"
proof -
  have sendfile: "clear_by_last (part_outcome_p0 x)
     (record_part (sendMsgPart_p0 x srv (st_world s) msg url token ''sendFile'' payload) s)"
    for payload
  proof -
    obtain log rr err0 where
      "sendMsgPart_p0 x srv (st_world s) msg url token ''sendFile'' payload =
       ((fst (part_outcome_p0 x rr), log, snd (part_outcome_p0 x rr)),
        st_world s @ [(part_request_p0 url token ''sendFile'' (enc payload), rr, err0)])"
      using sendMsgPart_p0_result [OF enc] by blast
    then show ?thesis
      by (simp add: record_part_clear_by_last)
  qed
  have unknown: "clear_by_last (part_outcome_p0 x) (s\<lparr>st_status := st, st_hasError := True\<rparr>)" for st
    by (simp add: clear_by_last_def)
  show ?thesis
    by (simp add: send_attachment_p0_def Let_def sendfile unknown split: prod.splits)
qed

lemma send_attachments_p0_clear_by_last:
  assumes enc: "\<forall>p. Marshal_payload x p = Inr (enc p)"
  shows "clear_by_last (part_outcome_p0 x) s \<Longrightarrow>
   clear_by_last (part_outcome_p0 x) (send_attachments_p0 x srv msg url token caption as s)"
  by (induction as arbitrary: s) (simp_all add: send_attachment_p0_clear_by_last [OF enc])

text \<open>
  The status returned is \<open>wired\<close> or \<open>errored\<close>, and it is \<open>wired\<close> only when the most
  recent exchange succeeded.  Nothing in it remembers the parts before the last.
\<close>

lemma SendMsg_wired_by_last:
  assumes auth: "configured (msg_Channel msg) ConfigAuthToken token"
      and kb: "keyboard_replies x (msg_QuickReplies msg) = Inr replies"
      and run: "SendMsg x srv msg = (Inr st, w)"
  shows "status_Status st = MsgWired \<or> status_Status st = MsgErrored"
    and "status_Status st = MsgWired \<Longrightarrow>
         w \<noteq> [] \<and> snd (part_outcome x (answer (last w))) = None"
proof -
  define s0 where "s0 = \<lparr>st_status = NewMsgStatusForID (msg_Channel msg) (msg_ID msg) MsgErrored,
                          st_hasError = True, st_replies = replies, st_world = []\<rparr>"
  define s1 where "s1 = (if text_part msg
                         then (record_part
                                 (sendMsgPart x srv [] msg token ''sendMessage''
                                    [(''chat_id'', [urn_Path (msg_URN msg)]), (''text'', [msg_Text msg])]
                                    replies) s0)\<lparr>st_replies := ''''\<rparr>
                         else s0)"
  define s2 where "s2 = send_attachments x srv msg token (caption_of msg) (msg_Attachments msg) s1"
  have r: "SendMsg x srv msg =
             (Inr (if \<not> st_hasError s2 then SetStatus (st_status s2) MsgWired else st_status s2),
              st_world s2)"
    by (simp add: SendMsg_unfold [OF auth kb] Let_def s0_def s1_def s2_def)
  have c0: "clear_by_last (part_outcome x) s0"
    by (simp add: clear_by_last_def s0_def)
  have c1: "clear_by_last (part_outcome x) s1"
  proof -
    obtain log rr err0 where
      "sendMsgPart x srv [] msg token ''sendMessage''
         [(''chat_id'', [urn_Path (msg_URN msg)]), (''text'', [msg_Text msg])] replies =
       ((fst (part_outcome x rr), log, snd (part_outcome x rr)),
        [] @ [(part_request token ''sendMessage''
         [(''chat_id'', [urn_Path (msg_URN msg)]), (''text'', [msg_Text msg])] replies, rr, err0)])"
      using sendMsgPart_result by blast
    then show ?thesis
      using c0 record_part_clear_by_last [of "part_outcome x" _ _ rr "[]"]
      by (simp add: s1_def)
  qed
  have c2: "clear_by_last (part_outcome x) s2"
    unfolding s2_def using c1 by (rule send_attachments_clear_by_last)
  have st0: "status_Status (st_status s0) = MsgErrored"
    by (simp add: s0_def NewMsgStatusForID_def)
  have keep_part: "status_Status (st_status (record_part p s)) = status_Status (st_status s)" for p s
    by (simp add: record_part_def SetExternalID_def AddLog_def split: prod.splits)
  have keep_one: "status_Status (st_status (send_attachment x srv msg token c a s)) =
                  status_Status (st_status s)" for c a s
    by (simp add: send_attachment_def send_media_def Let_def keep_part AddLog_def split: prod.splits)
  have keep_all: "status_Status (st_status (send_attachments x srv msg token c as s)) =
                  status_Status (st_status s)" for c as s
    by (induction as arbitrary: s) (simp_all add: keep_one)
  have st2: "status_Status (st_status s2) = MsgErrored"
    by (simp add: s2_def s1_def keep_all keep_part st0)
  have res: "st = (if \<not> st_hasError s2 then SetStatus (st_status s2) MsgWired else st_status s2)"
            "w = st_world s2"
    using run r by simp_all
  show "status_Status st = MsgWired \<or> status_Status st = MsgErrored"
    by (simp add: res st2 SetStatus_def)
  show "w \<noteq> [] \<and> snd (part_outcome x (answer (last w))) = None" if "status_Status st = MsgWired"
  proof -
    have "\<not> st_hasError s2"
      using that st2 by (auto simp: res split: if_splits)
    then show ?thesis
      using c2 by (simp add: clear_by_last_def res)
  qed
qed

lemma SendMsg_p0_wired_by_last:
  assumes auth: "configured (msg_Channel msg) ConfigAuthToken token"
      and url: "configured (msg_Channel msg) ConfigSendURL sendURL"
      and enc: "\<forall>p. Marshal_payload x p = Inr (enc p)"
      and run: "SendMsg_p0 x srv msg = (Inr st, w)"
  shows "status_Status st = MsgWired \<or> status_Status st = MsgErrored"
    and "status_Status st = MsgWired \<Longrightarrow>
         w \<noteq> [] \<and> snd (part_outcome_p0 x (answer (last w))) = None"
proof -
  define s0 where "s0 = \<lparr>st_status = NewMsgStatusForID (msg_Channel msg) (msg_ID msg) MsgErrored,
                          st_hasError = True, st_replies = '''', st_world = []\<rparr>"
  define s1 where "s1 = (if text_part msg
                         then record_part
                                (sendMsgPart_p0 x srv [] msg sendURL token ''sendMessage''
                                   (SendMsgPayload \<lparr>smp_Phone = urn_Path (msg_URN msg),
                                                     smp_Body = msg_Text msg\<rparr>)) s0
                         else s0)"
  define s2 where "s2 = send_attachments_p0 x srv msg sendURL token (caption_of msg)
                          (msg_Attachments msg) s1"
  have r: "SendMsg_p0 x srv msg =
             (Inr (if \<not> st_hasError s2 then SetStatus (st_status s2) MsgWired else st_status s2),
              st_world s2)"
    by (simp add: SendMsg_p0_unfold [OF auth url] Let_def s0_def s1_def s2_def)
  have c0: "clear_by_last (part_outcome_p0 x) s0"
    by (simp add: clear_by_last_def s0_def)
  have c1: "clear_by_last (part_outcome_p0 x) s1"
  proof -
    obtain log rr err0 where
      "sendMsgPart_p0 x srv [] msg sendURL token ''sendMessage''
         (SendMsgPayload \<lparr>smp_Phone = urn_Path (msg_URN msg), smp_Body = msg_Text msg\<rparr>) =
       ((fst (part_outcome_p0 x rr), log, snd (part_outcome_p0 x rr)),
        [] @ [(part_request_p0 sendURL token ''sendMessage''
          (enc (SendMsgPayload \<lparr>smp_Phone = urn_Path (msg_URN msg), smp_Body = msg_Text msg\<rparr>)),
          rr, err0)])"
      using sendMsgPart_p0_result [OF enc] by blast
    then show ?thesis
      using c0 record_part_clear_by_last [of "part_outcome_p0 x" _ _ rr "[]"]
      by (simp add: s1_def)
  qed
  have c2: "clear_by_last (part_outcome_p0 x) s2"
    unfolding s2_def using c1 by (rule send_attachments_p0_clear_by_last [OF enc])
  have st0: "status_Status (st_status s0) = MsgErrored"
    by (simp add: s0_def NewMsgStatusForID_def)
  have keep_part: "status_Status (st_status (record_part p s)) = status_Status (st_status s)" for p s
    by (simp add: record_part_def SetExternalID_def AddLog_def split: prod.splits)
  have keep_one: "status_Status (st_status (send_attachment_p0 x srv msg sendURL token c a s)) =
                  status_Status (st_status s)" for c a s
    by (simp add: send_attachment_p0_def Let_def keep_part AddLog_def split: prod.splits)
  have keep_all: "status_Status (st_status (send_attachments_p0 x srv msg sendURL token c as s)) =
                  status_Status (st_status s)" for c as s
    by (induction as arbitrary: s) (simp_all add: keep_one)
  have st2: "status_Status (st_status s2) = MsgErrored"
    by (simp add: s2_def s1_def keep_all keep_part st0)
  have res: "st = (if \<not> st_hasError s2 then SetStatus (st_status s2) MsgWired else st_status s2)"
            "w = st_world s2"
    using run r by simp_all
  show "status_Status st = MsgWired \<or> status_Status st = MsgErrored"
    by (simp add: res st2 SetStatus_def)
  show "w \<noteq> [] \<and> snd (part_outcome_p0 x (answer (last w))) = None" if "status_Status st = MsgWired"
  proof -
    have "\<not> st_hasError s2"
      using that st2 by (auto simp: res split: if_splits)
    then show ?thesis
      using c2 by (simp add: clear_by_last_def res)
  qed
qed

subsection \<open>Outbound: the claims\<close>

lemma example_configured:
  "configured example_channel ConfigAuthToken ''token''"
  "configured example_channel ConfigSendURL ''https://foo.bar''"
  by (simp_all add: configured_def example_channel_def ConfigAuthToken_def ConfigSendURL_def)

lemma example_marshal:
  "\<forall>p. Marshal_payload example_externals p =
        Inr (case p of SendMsgPayload m \<Rightarrow> smp_Body m | SendFilePayload f \<Rightarrow> sfp_Body f)"
  by (simp add: example_externals_def split: send_payload.splits)

lemma example_keyboard:
  "keyboard_replies example_externals (msg_QuickReplies (example_msg t as)) = Inr ''''"
  by (simp add: keyboard_replies_def example_msg_def)

lemma example_msg_channel: "msg_Channel (example_msg t as) = example_channel"
  by (simp add: example_msg_def)

text \<open>
  C1.  The claim fails on the code.  A message with the text \<open>hi\<close> and two images is sent in
  three parts; the provider refuses the first (the text) and accepts the two images.  Both
  versions of \<open>SendMsg\<close> return the status \<open>wired\<close> although a part failed: each part
  assigns \<open>hasError = err != nil\<close>, so only the last part decides.
\<close>

theorem SendMsg_wired_after_failed_part:
  "(case SendMsg example_externals (scripted_server ['''', ''A'', ''BB''])
          (example_msg ''hi'' [''image/jpeg:http://a'', ''image/jpeg:http://b'']) of
      (Inr st, w) \<Rightarrow>
        map (\<lambda>e. snd (part_outcome example_externals (answer e)) = None) w = [False, True, True] \<and>
        status_Status st = MsgWired
    | (Inl e, w) \<Rightarrow> False)
   \<and>
   (case SendMsg_p0 example_externals (scripted_server ['''', ''A'', ''BB''])
          (example_msg ''hi'' [''image/jpeg:http://a'', ''image/jpeg:http://b'']) of
      (Inr st, w) \<Rightarrow>
        map (\<lambda>e. snd (part_outcome_p0 example_externals (answer e)) = None) w = [False, True, True] \<and>
        status_Status st = MsgWired
    | (Inl e, w) \<Rightarrow> False)"
  by code_simp

theorem SendMsg_wired_after_failed_part_witness:
  "(\<exists>st w. SendMsg example_externals (scripted_server ['''', ''A'', ''BB''])
              (example_msg ''hi'' [''image/jpeg:http://a'', ''image/jpeg:http://b'']) = (Inr st, w)
           \<and> status_Status st = MsgWired
           \<and> \<not> list_all (\<lambda>e. snd (part_outcome example_externals (answer e)) = None) w)
   \<and> (\<exists>st w. SendMsg_p0 example_externals (scripted_server ['''', ''A'', ''BB''])
              (example_msg ''hi'' [''image/jpeg:http://a'', ''image/jpeg:http://b'']) = (Inr st, w)
           \<and> status_Status st = MsgWired
           \<and> \<not> list_all (\<lambda>e. snd (part_outcome_p0 example_externals (answer e)) = None) w)"
proof -
  have f: "map P w = [False, True, True] \<Longrightarrow> \<not> list_all P w" for P :: "exchange \<Rightarrow> bool" and w
    by (cases w) auto
  show ?thesis
    using SendMsg_wired_after_failed_part
    by (auto split: prod.splits sum.splits dest: f)
qed

text \<open>
  C4.  The claim fails on the code: of two images the provider accepts the first, with an
  ID, and refuses the second.  The most recent successful part has that ID, but the status
  returned carries the empty external ID, because the failed part overwrote it.
\<close>

theorem SendMsg_external_id_counterexample:
  "(case SendMsg example_externals (scripted_server [''A'', ''''])
          (example_msg '''' [''image/jpeg:http://a'', ''image/jpeg:http://b'']) of
      (Inr st, w) \<Rightarrow>
        last_successful_id (part_outcome example_externals) w = Some ''1'' \<and>
        status_ExternalID st = ''''
    | (Inl e, w) \<Rightarrow> False)
   \<and>
   (case SendMsg_p0 example_externals (scripted_server [''A'', ''''])
          (example_msg '''' [''image/jpeg:http://a'', ''image/jpeg:http://b'']) of
      (Inr st, w) \<Rightarrow>
        last_successful_id (part_outcome_p0 example_externals) w = Some ''A'' \<and>
        status_ExternalID st = ''''
    | (Inl e, w) \<Rightarrow> False)"
  by code_simp

text \<open>
  C4, amended.  With a usable configuration, \<open>SendMsg\<close> returns a status, and when it made
  at least one HTTP exchange the external ID on that status is what the most recent exchange
  gave: the provider's ID when that part succeeded, the empty string when it failed.  Every
  sent part overwrites the ID, successful or not.  (For \<open>src/unnamed/part_000\<close> the JSON
  bodies are assumed to encode.)
\<close>

theorem SendMsg_external_id_of_last_exchange:
  assumes auth: "configured (msg_Channel msg) ConfigAuthToken token"
      and kb: "keyboard_replies x (msg_QuickReplies msg) = Inr replies"
      and url: "configured (msg_Channel msg) ConfigSendURL sendURL"
      and enc: "\<forall>p. Marshal_payload x p = Inr (enc p)"
  shows "(\<exists>st. fst (SendMsg x srv msg) = Inr st \<and>
            (snd (SendMsg x srv msg) = [] \<or>
             status_ExternalID st =
               (let (externalID, err) = part_outcome x (answer (last (snd (SendMsg x srv msg))))
                in if err = None then externalID else '''')))
       \<and> (\<exists>st. fst (SendMsg_p0 x srv msg) = Inr st \<and>
            (snd (SendMsg_p0 x srv msg) = [] \<or>
             status_ExternalID st =
               (let (externalID, err) = part_outcome_p0 x (answer (last (snd (SendMsg_p0 x srv msg))))
                in if err = None then externalID else '''')))"
proof -
  have a: "(let (externalID, err) = part_outcome x rr in if err = None then externalID else '''') =
           fst (part_outcome x rr)" for rr
    using part_outcome_failed [of x rr] by (auto simp: Let_def split: prod.splits)
  have b: "(let (externalID, err) = part_outcome_p0 x rr in if err = None then externalID else '''') =
           fst (part_outcome_p0 x rr)" for rr
    using part_outcome_p0_failed [of x rr] by (auto simp: Let_def split: prod.splits)
  show ?thesis
    unfolding a b
    using SendMsg_external_id [OF auth kb, of srv] SendMsg_p0_external_id [OF auth url enc, of srv]
    by blast
qed

theorem SendMsg_external_id_of_last_exchange_witness:
  "configured (msg_Channel (example_msg '''' [''image/jpeg:http://a'', ''image/jpeg:http://b'']))
     ConfigAuthToken ''token''
   \<and> keyboard_replies example_externals
        (msg_QuickReplies (example_msg '''' [''image/jpeg:http://a'', ''image/jpeg:http://b''])) = Inr ''''
   \<and> configured (msg_Channel (example_msg '''' [''image/jpeg:http://a'', ''image/jpeg:http://b'']))
        ConfigSendURL ''https://foo.bar''
   \<and> (\<forall>p. Marshal_payload example_externals p =
          Inr (case p of SendMsgPayload m \<Rightarrow> smp_Body m | SendFilePayload f \<Rightarrow> sfp_Body f))
   \<and> (\<exists>st. fst (SendMsg_p0 example_externals (scripted_server [''A'', ''B''])
                  (example_msg '''' [''image/jpeg:http://a'', ''image/jpeg:http://b''])) = Inr st \<and>
            status_ExternalID st = ''B'')"
proof -
  let ?msg = "example_msg '''' [''image/jpeg:http://a'', ''image/jpeg:http://b'']"
  let ?run = "SendMsg_p0 example_externals (scripted_server [''A'', ''B'']) ?msg"
  have auth: "configured (msg_Channel ?msg) ConfigAuthToken ''token''"
    by (simp add: example_msg_channel example_configured)
  have url: "configured (msg_Channel ?msg) ConfigSendURL ''https://foo.bar''"
    by (simp add: example_msg_channel example_configured)
  have kb: "keyboard_replies example_externals (msg_QuickReplies ?msg) = Inr ''''"
    by (rule example_keyboard)
  have w: "snd ?run \<noteq> []"
    by code_simp
  have l: "part_outcome_p0 example_externals (answer (last (snd ?run))) = (''B'', None)"
    by code_simp
  show ?thesis
    using SendMsg_external_id_of_last_exchange [OF auth kb url example_marshal,
            of "scripted_server [''A'', ''B'']"]
          auth kb url example_marshal w l
    by auto
qed

text \<open>
  C6.  The claim fails on the code: on a channel without \<open>auth_token\<close> neither version
  returns a status, errored or other.
\<close>

theorem SendMsg_invalid_auth_token_counterexample:
  "\<not> (\<exists>st. fst (SendMsg example_externals (scripted_server [''A''])
                  ((example_msg ''hi'' [])\<lparr>msg_Channel := example_channel\<lparr>channel_Config := []\<rparr>\<rparr>)) = Inr st
            \<and> status_Status st = MsgErrored)
   \<and> \<not> (\<exists>st. fst (SendMsg_p0 example_externals (scripted_server [''A''])
                  ((example_msg ''hi'' [])\<lparr>msg_Channel := example_channel\<lparr>channel_Config := []\<rparr>\<rparr>)) = Inr st
            \<and> status_Status st = MsgErrored)"
proof -
  have l: "lacks_valid_string
             (msg_Channel ((example_msg ''hi'' [])\<lparr>msg_Channel := example_channel\<lparr>channel_Config := []\<rparr>\<rparr>))
             ConfigAuthToken"
    by (simp add: lacks_valid_string_def)
  show ?thesis
    by (simp add: SendMsg_lacking [OF l] SendMsg_p0_lacking [OF l])
qed

text \<open>
  C6, amended.  For an outbound message on a channel whose configuration lacks a valid
  \<open>auth_token\<close> (missing, empty, or not a string), \<open>SendMsg\<close> performs no HTTP call and
  returns no status: it returns the error \<open>invalid auth token config\<close> at once.
\<close>

theorem SendMsg_invalid_auth_token:
  assumes "lacks_valid_string (msg_Channel msg) ConfigAuthToken"
  shows "SendMsg x srv msg = (Inl (Errorf ''invalid auth token config''), [])
       \<and> SendMsg_p0 x srv msg = (Inl (Errorf ''invalid auth token config''), [])"
  using SendMsg_lacking [OF assms] SendMsg_p0_lacking [OF assms] by simp

theorem SendMsg_invalid_auth_token_witness:
  "lacks_valid_string
     (msg_Channel ((example_msg ''hi'' [])\<lparr>msg_Channel :=
        example_channel\<lparr>channel_Config := [(''auth_token'', CInt 5)]\<rparr>\<rparr>)) ConfigAuthToken
   \<and> SendMsg example_externals (scripted_server [''A''])
        ((example_msg ''hi'' [])\<lparr>msg_Channel :=
           example_channel\<lparr>channel_Config := [(''auth_token'', CInt 5)]\<rparr>\<rparr>) =
       (Inl (Errorf ''invalid auth token config''), [])
   \<and> SendMsg_p0 example_externals (scripted_server [''A''])
        ((example_msg ''hi'' [])\<lparr>msg_Channel :=
           example_channel\<lparr>channel_Config := [(''auth_token'', CInt 5)]\<rparr>\<rparr>) =
       (Inl (Errorf ''invalid auth token config''), [])"
proof -
  have l: "lacks_valid_string
     (msg_Channel ((example_msg ''hi'' [])\<lparr>msg_Channel :=
        example_channel\<lparr>channel_Config := [(''auth_token'', CInt 5)]\<rparr>\<rparr>)) ConfigAuthToken"
    by (simp add: lacks_valid_string_def ConfigAuthToken_def)
  show ?thesis
    using SendMsg_invalid_auth_token [OF l] l by simp
qed

text \<open>
  C9.  The claim fails on the code where it says that one part is sent per attachment: a
  message whose only attachment is a PDF makes the form-based version send nothing, and a
  message whose only attachment is a video makes the JSON version send nothing.
\<close>

theorem SendMsg_parts_counterexample:
  "length (snd (SendMsg example_externals (scripted_server [''A''])
                  (example_msg '''' [''application/pdf:http://foo.bar/doc.pdf''])))
     \<noteq> (if text_part (example_msg '''' [''application/pdf:http://foo.bar/doc.pdf'']) then 1 else 0)
        + length (msg_Attachments (example_msg '''' [''application/pdf:http://foo.bar/doc.pdf'']))
   \<and> length (snd (SendMsg_p0 example_externals (scripted_server [''A''])
                  (example_msg '''' [''video/mp4:http://foo.bar/clip.mp4''])))
     \<noteq> (if text_part (example_msg '''' [''video/mp4:http://foo.bar/clip.mp4'']) then 1 else 0)
        + length (msg_Attachments (example_msg '''' [''video/mp4:http://foo.bar/clip.mp4'']))"
  by code_simp

text \<open>
  C9, amended.  With a usable configuration \<open>SendMsg\<close> sends these requests, in this
  order: first the text part, if and only if the text is non-empty and the number of
  attachments differs from 1 (a lone attachment carries the text as its caption); then one
  part per attachment whose media type the version supports (image, video or audio in
  \<open>src/handlers/chatapi/chatapi.go\<close>, image in \<open>src/unnamed/part_000\<close>), in declared
  order.  An attachment of another type is not sent.
\<close>

theorem SendMsg_parts:
  assumes auth: "configured (msg_Channel msg) ConfigAuthToken token"
      and kb: "keyboard_replies x (msg_QuickReplies msg) = Inr replies"
      and url: "configured (msg_Channel msg) ConfigSendURL sendURL"
      and enc: "\<forall>p. Marshal_payload x p = Inr (enc p)"
  shows "map fst (snd (SendMsg x srv msg)) =
           (if text_part msg
            then text_request msg token replies # media_requests x msg token '''' (msg_Attachments msg)
            else media_requests x msg token replies (msg_Attachments msg))
       \<and> length (snd (SendMsg x srv msg)) =
           (if text_part msg then 1 else 0) + length (filter (supported x) (msg_Attachments msg))
       \<and> map fst (snd (SendMsg_p0 x srv msg)) =
           (if text_part msg then [text_request_p0 enc msg sendURL token] else []) @
           map (file_request_p0 enc x msg sendURL token)
             (filter (supported_p0 x) (msg_Attachments msg))"
proof -
  have r: "map fst (snd (SendMsg x srv msg)) =
           (if text_part msg
            then text_request msg token replies # media_requests x msg token '''' (msg_Attachments msg)
            else media_requests x msg token replies (msg_Attachments msg))"
    using auth kb by (rule SendMsg_requests)
  have "length (snd (SendMsg x srv msg)) = length (map fst (snd (SendMsg x srv msg)))"
    by simp
  also have "\<dots> = (if text_part msg then 1 else 0) + length (filter (supported x) (msg_Attachments msg))"
    unfolding r by (simp add: length_media_requests)
  finally have n: "length (snd (SendMsg x srv msg)) =
      (if text_part msg then 1 else 0) + length (filter (supported x) (msg_Attachments msg))" .
  show ?thesis
    using r n SendMsg_p0_requests [OF auth url enc, of srv] by simp
qed

theorem SendMsg_parts_witness:
  "configured (msg_Channel (example_msg ''hi'' [''image/png:u1'', ''text/x:u2'', ''audio/mp3:u3'']))
     ConfigAuthToken ''token''
   \<and> keyboard_replies example_externals
        (msg_QuickReplies (example_msg ''hi'' [''image/png:u1'', ''text/x:u2'', ''audio/mp3:u3''])) = Inr ''''
   \<and> configured (msg_Channel (example_msg ''hi'' [''image/png:u1'', ''text/x:u2'', ''audio/mp3:u3'']))
        ConfigSendURL ''https://foo.bar''
   \<and> (\<forall>p. Marshal_payload example_externals p =
          Inr (case p of SendMsgPayload m \<Rightarrow> smp_Body m | SendFilePayload f \<Rightarrow> sfp_Body f))
   \<and> map (req_URL \<circ> fst)
        (snd (SendMsg example_externals (scripted_server [])
               (example_msg ''hi'' [''image/png:u1'', ''text/x:u2'', ''audio/mp3:u3'']))) =
       [''https://api.telegram.org/bottoken/sendMessage'',
        ''https://api.telegram.org/bottoken/sendPhoto'',
        ''https://api.telegram.org/bottoken/sendAudio'']
   \<and> map (req_Body \<circ> fst)
        (snd (SendMsg_p0 example_externals (scripted_server [])
               (example_msg ''hi'' [''image/png:u1'', ''text/x:u2'', ''audio/mp3:u3'']))) =
       [RawBody ''hi'', RawBody ''u1'']"
proof -
  let ?msg = "example_msg ''hi'' [''image/png:u1'', ''text/x:u2'', ''audio/mp3:u3'']"
  let ?enc = "\<lambda>p. case p of SendMsgPayload m \<Rightarrow> smp_Body m | SendFilePayload f \<Rightarrow> sfp_Body f"
  have auth: "configured (msg_Channel ?msg) ConfigAuthToken ''token''"
    by (simp add: example_msg_channel example_configured)
  have url: "configured (msg_Channel ?msg) ConfigSendURL ''https://foo.bar''"
    by (simp add: example_msg_channel example_configured)
  have kb: "keyboard_replies example_externals (msg_QuickReplies ?msg) = Inr ''''"
    by (rule example_keyboard)
  have e1: "map req_URL
             (if text_part ?msg
              then text_request ?msg ''token'' '''' #
                   media_requests example_externals ?msg ''token'' '''' (msg_Attachments ?msg)
              else media_requests example_externals ?msg ''token'' '''' (msg_Attachments ?msg)) =
            [''https://api.telegram.org/bottoken/sendMessage'',
             ''https://api.telegram.org/bottoken/sendPhoto'',
             ''https://api.telegram.org/bottoken/sendAudio'']"
    by code_simp
  have e2: "map req_Body
             ((if text_part ?msg then [text_request_p0 ?enc ?msg ''https://foo.bar'' ''token''] else []) @
              map (file_request_p0 ?enc example_externals ?msg ''https://foo.bar'' ''token'')
                (filter (supported_p0 example_externals) (msg_Attachments ?msg))) =
            [RawBody ''hi'', RawBody ''u1'']"
    by code_simp
  have p: "map fst (snd (SendMsg example_externals (scripted_server []) ?msg)) =
           (if text_part ?msg
              then text_request ?msg ''token'' '''' #
                   media_requests example_externals ?msg ''token'' '''' (msg_Attachments ?msg)
              else media_requests example_externals ?msg ''token'' '''' (msg_Attachments ?msg))"
          "map fst (snd (SendMsg_p0 example_externals (scripted_server []) ?msg)) =
           (if text_part ?msg then [text_request_p0 ?enc ?msg ''https://foo.bar'' ''token''] else []) @
              map (file_request_p0 ?enc example_externals ?msg ''https://foo.bar'' ''token'')
                (filter (supported_p0 example_externals) (msg_Attachments ?msg))"
    using SendMsg_parts [OF auth kb url example_marshal, of "scripted_server []"] by simp_all
  have u1: "map (req_URL \<circ> fst) (snd (SendMsg example_externals (scripted_server []) ?msg)) =
            map req_URL (map fst (snd (SendMsg example_externals (scripted_server []) ?msg)))"
    by simp
  have u2: "map (req_Body \<circ> fst) (snd (SendMsg_p0 example_externals (scripted_server []) ?msg)) =
            map req_Body (map fst (snd (SendMsg_p0 example_externals (scripted_server []) ?msg)))"
    by simp
  show ?thesis
    unfolding u1 u2 p e1 e2
    using auth kb url example_marshal by simp
qed

subsection \<open>Inbound: the two loops\<close>

lemma receive_acks_history:
  "loop_history (receive_acks b ch acks (h, events, items)) =
     h @ take (Suc (length (takeWhile tolerated (ack_replies b ch h acks))))
           (map2 (\<lambda>a r. EvWriteMsgStatus (ack_event ch a) r) acks (ack_replies b ch h acks))"
proof (induction acks arbitrary: h events items)
  case Nil
  show ?case by simp
next
  case (Cons a acks)
  show ?case
  proof (cases "WriteMsgStatus b h (ack_event ch a)")
    case None
    then show ?thesis
      by (simp add: Cons.IH Let_def tolerated_def ack_event_def)
  next
    case (Some e)
    then show ?thesis
      by (cases "e = ErrMsgNotFound") (simp_all add: Cons.IH Let_def tolerated_def ack_event_def)
  qed
qed

lemma receive_acks_tolerated:
  "list_all tolerated (ack_replies b ch h acks) \<Longrightarrow>
   receive_acks b ch acks (h, events, items) =
     Inr (h @ map2 (\<lambda>a r. EvWriteMsgStatus (ack_event ch a) r) acks (ack_replies b ch h acks),
          events @ map (\<lambda>(a, r). StatusEvent (ack_event ch a))
                     (filter (\<lambda>(a, r). r = None) (zip acks (ack_replies b ch h acks))),
          items @ map2 (\<lambda>a r. ack_item (ack_event ch a) r) acks (ack_replies b ch h acks))"
proof (induction acks arbitrary: h events items)
  case Nil
  show ?case by simp
next
  case (Cons a acks)
  let ?r = "WriteMsgStatus b h (ack_event ch a)"
  have rest: "list_all tolerated
                (ack_replies b ch (h @ [EvWriteMsgStatus (ack_event ch a) ?r]) acks)"
    using Cons.prems by simp
  have "?r = None \<or> ?r = Some ErrMsgNotFound"
    using Cons.prems by (simp add: tolerated_def)
  then show ?case
  proof
    assume "?r = None"
    then show ?thesis
      using Cons.IH [OF rest] by (simp add: Let_def ack_event_def ack_item_def)
  next
    assume "?r = Some ErrMsgNotFound"
    then show ?thesis
      using Cons.IH [OF rest] by (simp add: Let_def ack_event_def ack_item_def)
  qed
qed

lemma length_ack_replies [simp]: "length (ack_replies b ch h acks) = length acks"
  by (induction acks arbitrary: h) simp_all

lemma receive_one_calls:
  assumes "receive_one x b ch m (h, events, items) = Inr (h', events', items')"
  shows "\<exists>t. handles m t \<and> h' = h @ message_calls t \<and>
              events' = events @ [MsgEvent (written t)] \<and>
              items' = items @ [MsgReceiveData (written t)]"
proof (cases "NewWhatsAppURN x (Replace_1 (mo_Author m) ''@c.us'' '''')")
  case (Inl e)
  then show ?thesis
    using assms by (simp add: receive_one_def Let_def)
next
  case (Inr urn)
  define ev where "ev = WithContactName
                     (WithReceivedOn
                        (WithExternalID
                           (NewIncomingMsg ch urn
                              (if mo_Type m = ''image'' then mo_Caption m else mo_Body m))
                           (mo_ID m))
                        (mo_Time m))
                     (NameFromFirstLastUsername x (mo_SenderName m) '''' '''')"
  define event0 where "event0 = CheckExternalIDSeen b h ev"
  define event where "event = (if mo_Type m = ''image'' then WithAttachment event0 (mo_Body m) else event0)"
  have id: "msg_ExternalID ev = mo_ID m"
    by (simp add: ev_def WithContactName_def WithReceivedOn_def WithExternalID_def)
  have run: "receive_one x b ch m (h, events, items) =
               (case WriteMsg b (h @ [EvCheckExternalIDSeen ev event0]) event of
                  Some err \<Rightarrow> Inl (h @ [EvCheckExternalIDSeen ev event0, EvWriteMsg event (Some err)], Failed err)
                | None \<Rightarrow> Inr (h @ message_calls (ev, event0, event),
                               events @ [MsgEvent event], items @ [MsgReceiveData event]))"
    using Inr by (simp add: receive_one_def Let_def ev_def event0_def event_def split: option.splits)
  show ?thesis
  proof (cases "WriteMsg b (h @ [EvCheckExternalIDSeen ev event0]) event")
    case None
    have "handles m (ev, event0, event)"
      using id by (simp add: event_def)
    then show ?thesis
      using assms run None by (intro exI [of _ "(ev, event0, event)"]) simp
  next
    case (Some e)
    then show ?thesis
      using assms run by simp
  qed
qed

lemma receive_messages_calls:
  assumes "receive_messages x b ch ms (h, events, items) = Inr (h', events', items')"
  shows "\<exists>ts. list_all2 handles (inbound ms) ts \<and>
               h' = h @ concat (map message_calls ts) \<and>
               events' = events @ map (\<lambda>t. MsgEvent (written t)) ts \<and>
               items' = items @ map (\<lambda>t. MsgReceiveData (written t)) ts"
  using assms
proof (induction ms arbitrary: h events items)
  case Nil
  then show ?case by (simp add: inbound_def)
next
  case (Cons m ms)
  show ?case
  proof (cases "mo_FromMe m")
    case True
    then have "receive_messages x b ch ms (h, events, items) = Inr (h', events', items')"
      using Cons.prems by simp
    from Cons.IH [OF this] show ?thesis
      using True by (simp add: inbound_def)
  next
    case False
    then obtain h1 events1 items1 where
      one: "receive_one x b ch m (h, events, items) = Inr (h1, events1, items1)" and
      rest: "receive_messages x b ch ms (h1, events1, items1) = Inr (h', events', items')"
      using Cons.prems by (auto split: sum.splits)
    obtain t where t: "handles m t" "h1 = h @ message_calls t"
        "events1 = events @ [MsgEvent (written t)]" "items1 = items @ [MsgReceiveData (written t)]"
      using receive_one_calls [OF one] by blast
    obtain ts where ts: "list_all2 handles (inbound ms) ts"
        "h' = h1 @ concat (map message_calls ts)"
        "events' = events1 @ map (\<lambda>t. MsgEvent (written t)) ts"
        "items' = items1 @ map (\<lambda>t. MsgReceiveData (written t)) ts"
      using Cons.IH [OF rest] by blast
    show ?thesis
      using False t ts by (intro exI [of _ "t # ts"]) (simp add: inbound_def)
  qed
qed

subsection \<open>Inbound: the whole handler\<close>

lemma receiveMessage_valid:
  assumes "InstanceID payload \<noteq> ''''"
      and "receive_messages x b ch (Messages payload) (h0, [], []) = Inr st"
  shows "receiveMessage x b ch h0 (Some payload) =
           (case receive_acks b ch (Ack payload) st of
              Inl r \<Rightarrow> r
            | Inr (h, events, items) \<Rightarrow>
                (h, Responded events (WriteDataResponse 200 ''Events Handled'' items)))"
  using assms by (simp add: receiveMessage_def DecodeAndValidateJSON_def)

lemma receiveMessage_history:
  assumes "InstanceID payload \<noteq> ''''"
      and "receive_messages x b ch (Messages payload) (h0, [], []) = Inr st"
  shows "fst (receiveMessage x b ch h0 (Some payload)) =
           loop_history (receive_acks b ch (Ack payload) st)"
  by (cases "receive_acks b ch (Ack payload) st")
     (auto simp: receiveMessage_valid [OF assms] split: prod.splits)

lemma takeWhile_reaches:
  "list_all P (take i xs) \<Longrightarrow> i \<le> length xs \<Longrightarrow> i \<le> length (takeWhile P xs)"
proof (induction xs arbitrary: i)
  case Nil
  then show ?case by simp
next
  case (Cons x xs)
  then show ?case by (cases i) auto
qed

lemma receive_one_succeeds:
  assumes "NewWhatsAppURN x (Replace_1 (mo_Author m) ''@c.us'' '''') = Inr urn"
      and "\<forall>h e. WriteMsg b h e = None"
  shows "\<exists>st'. receive_one x b ch m st = Inr st'"
  using assms by (cases st rule: prod_cases3) (simp add: receive_one_def Let_def)

lemma receive_messages_succeeds:
  assumes "list_all (\<lambda>m. \<exists>urn. NewWhatsAppURN x (Replace_1 (mo_Author m) ''@c.us'' '''') = Inr urn)
             (inbound ms)"
      and w: "\<forall>h e. WriteMsg b h e = None"
  shows "\<exists>st'. receive_messages x b ch ms st = Inr st'"
  using assms(1)
proof (induction ms arbitrary: st)
  case Nil
  show ?case by (rule exI [of _ st]) simp
next
  case (Cons m ms)
  show ?case
  proof (cases "mo_FromMe m")
    case True
    then show ?thesis
      using Cons by (simp add: inbound_def)
  next
    case False
    then obtain urn where "NewWhatsAppURN x (Replace_1 (mo_Author m) ''@c.us'' '''') = Inr urn"
      using Cons.prems by (auto simp: inbound_def)
    then obtain st1 where "receive_one x b ch m st = Inr st1"
      using receive_one_succeeds [OF _ w] by blast
    moreover have "\<exists>st'. receive_messages x b ch ms st1 = Inr st'"
      using Cons False by (simp add: inbound_def)
    ultimately show ?thesis
      using False by auto
  qed
qed

text \<open>
  The branch that answers "Ignoring request, no message" cannot be reached: the validation
  before it rejects the very payloads it tests for.
\<close>

lemma ignored_branch_unreachable:
  "snd (receiveMessage x b ch h0 body) \<noteq>
     Responded [] (WriteAndLogRequestIgnored ''Ignoring request, no message'')"
proof (cases "DecodeAndValidateJSON body")
  case (Inl e)
  then show ?thesis
    by (simp add: receiveMessage_def WriteAndLogRequestError_def WriteAndLogRequestIgnored_def
          WriteDataResponse_def)
next
  case (Inr payload)
  then have inst: "InstanceID payload \<noteq> ''''"
    by (auto simp: DecodeAndValidateJSON_def split: option.splits if_splits)
  have acks: "snd r \<noteq> Responded [] (WriteAndLogRequestIgnored ''Ignoring request, no message'')"
    if "receive_acks b ch as st = Inl r" for as st r
    using that
  proof (induction as arbitrary: st)
    case Nil
    then show ?case by simp
  next
    case (Cons a as)
    then show ?case
      by (cases st) (auto simp: Let_def split: if_splits option.splits)
  qed
  have one: "snd r \<noteq> Responded [] (WriteAndLogRequestIgnored ''Ignoring request, no message'')"
    if "receive_one x b ch m st = Inl r" for m st r
    using that
    by (cases st)
       (auto simp: receive_one_def Let_def WriteAndLogRequestError_def WriteAndLogRequestIgnored_def
          WriteDataResponse_def split: sum.splits option.splits)
  have msgs: "snd r \<noteq> Responded [] (WriteAndLogRequestIgnored ''Ignoring request, no message'')"
    if "receive_messages x b ch ms st = Inl r" for ms st r
    using that
  proof (induction ms arbitrary: st)
    case Nil
    then show ?case by simp
  next
    case (Cons m ms)
    then show ?case
      using one by (auto split: if_splits sum.splits)
  qed
  show ?thesis
  proof (cases "receive_messages x b ch (Messages payload) (h0, [], [])")
    case (Inl r)
    then show ?thesis
      using Inr inst msgs [OF Inl] by (simp add: receiveMessage_def)
  next
    case st: (Inr st)
    show ?thesis
    proof (cases "receive_acks b ch (Ack payload) st")
      case (Inl r)
      then show ?thesis
        using Inr inst st acks [OF Inl] by (simp add: receiveMessage_def)
    next
      case r: (Inr r)
      then show ?thesis
        using Inr inst st
        by (cases r)
           (simp add: receiveMessage_def WriteAndLogRequestIgnored_def WriteDataResponse_def)
    qed
  qed
qed

text \<open>
  A valid payload with nothing to handle is answered \<open>200\<close> with the envelope
  \<open>Events Handled\<close> and no records.
\<close>

lemma receiveMessage_nothing_to_handle:
  "InstanceID payload \<noteq> '''' \<Longrightarrow> Messages payload = [] \<Longrightarrow> Ack payload = [] \<Longrightarrow>
   receiveMessage x b ch h0 (Some payload) =
     (h0, Responded [] (WriteDataResponse 200 ''Events Handled'' []))"
  by (simp add: receiveMessage_def DecodeAndValidateJSON_def)

subsection \<open>Inbound: the claims\<close>

text \<open>
  C5.  The claim fails on the code.  The backend has seen the external ID \<open>m1\<close> when a
  webhook brings a message with that ID.  \<open>CheckExternalIDSeen\<close> returns the event marked
  as seen, and the handler still calls \<open>WriteMsg\<close> with it, then \<open>WriteExternalIDSeen\<close>; the
  record in its response is a msg record, not an info record.
\<close>

theorem receiveMessage_seen_counterexample:
  "(case receiveMessage example_externals example_backend example_channel
           [EvWriteExternalIDSeen
              ((NewIncomingMsg example_channel \<lparr>urn_Scheme = ''whatsapp'', urn_Path = ''17472822486''\<rparr> ''Ok!'')
                 \<lparr>msg_ExternalID := ''m1''\<rparr>)]
           (Some \<lparr>InstanceID = ''79926'', Messages = [example_message ''m1'' ''Ok!''], Ack = []\<rparr>) of
      (h, Responded events r) \<Rightarrow>
        map call_kind (tl h) =
          [(''CheckExternalIDSeen'', True), (''WriteMsg'', True), (''WriteExternalIDSeen'', True)] \<and>
        resp_Code r = 200 \<and> map is_info (resp_Data r) = [False]
    | (h, Failed e) \<Rightarrow> False)"
  by code_simp

text \<open>
  C5, amended.  For a webhook with a valid payload, when the URNs of its inbound messages
  parse and the backend's writes succeed: for every inbound message, in declared order, the
  handler calls \<open>CheckExternalIDSeen\<close> and then calls \<open>WriteMsg\<close> with the event that call
  returned (with the attachment added for an image), whether or not the event is marked as
  seen, and then \<open>WriteExternalIDSeen\<close> with the same event; suppressing a duplicate is left
  to the backend's \<open>WriteMsg\<close>.  The response is \<open>200\<close> and carries a msg record for every
  inbound message, followed by the records of the acks.
\<close>

theorem receiveMessage_checks_then_writes:
  assumes inst: "InstanceID payload \<noteq> ''''"
      and urns: "list_all (\<lambda>m. \<exists>urn. NewWhatsAppURN x (Replace_1 (mo_Author m) ''@c.us'' '''') = Inr urn)
                   (inbound (Messages payload))"
      and writes: "\<forall>h e. WriteMsg b h e = None"
      and statuses: "\<forall>h s. tolerated (WriteMsgStatus b h s)"
  shows "\<exists>ts hs events items.
           list_all2 handles (inbound (Messages payload)) ts \<and>
           list_all (\<lambda>e. fst (call_kind e) = ''WriteMsgStatus'') hs \<and>
           length items = length (Ack payload) \<and>
           receiveMessage x b ch h0 (Some payload) =
             (h0 @ concat (map message_calls ts) @ hs,
              Responded (map (\<lambda>t. MsgEvent (written t)) ts @ events)
                (WriteDataResponse 200 ''Events Handled''
                   (map (\<lambda>t. MsgReceiveData (written t)) ts @ items)))"
proof -
  obtain h1 events1 items1 where
    msgs: "receive_messages x b ch (Messages payload) (h0, [], []) = Inr (h1, events1, items1)"
    using receive_messages_succeeds [OF urns writes, of ch "(h0, [], [])"]
    by (metis prod_cases3)
  obtain ts where ts: "list_all2 handles (inbound (Messages payload)) ts"
      "h1 = h0 @ concat (map message_calls ts)"
      "events1 = map (\<lambda>t. MsgEvent (written t)) ts"
      "items1 = map (\<lambda>t. MsgReceiveData (written t)) ts"
    using receive_messages_calls [OF msgs] by auto
  let ?rs = "ack_replies b ch h1 (Ack payload)"
  have tol: "list_all tolerated ?rs"
  proof -
    have "list_all tolerated (ack_replies b ch h as)" for h as
      using statuses by (induction as arbitrary: h) simp_all
    then show ?thesis .
  qed
  let ?hs = "map2 (\<lambda>a r. EvWriteMsgStatus (ack_event ch a) r) (Ack payload) ?rs"
  let ?events = "map (\<lambda>(a, r). StatusEvent (ack_event ch a))
                   (filter (\<lambda>(a, r). r = None) (zip (Ack payload) ?rs))"
  let ?items = "map2 (\<lambda>a r. ack_item (ack_event ch a) r) (Ack payload) ?rs"
  have run: "receiveMessage x b ch h0 (Some payload) =
               (h1 @ ?hs, Responded (events1 @ ?events)
                  (WriteDataResponse 200 ''Events Handled'' (items1 @ ?items)))"
    by (simp add: receiveMessage_valid [OF inst msgs] receive_acks_tolerated [OF tol])
  have kinds: "list_all (\<lambda>e. fst (call_kind e) = ''WriteMsgStatus'') ?hs"
    by (simp add: list_all_iff split: prod.splits)
  have len: "length ?items = length (Ack payload)"
    by simp
  show ?thesis
    using ts kinds len run
    by (intro exI [of _ ts] exI [of _ ?hs] exI [of _ ?events] exI [of _ ?items]) simp
qed

theorem receiveMessage_checks_then_writes_witness:
  "InstanceID \<lparr>InstanceID = ''79926'', Messages = [example_message ''m1'' ''Ok!''],
                Ack = [example_ack ''unknown'' ''delivered'']\<rparr> \<noteq> ''''
   \<and> list_all (\<lambda>m. \<exists>urn. NewWhatsAppURN example_externals (Replace_1 (mo_Author m) ''@c.us'' '''') = Inr urn)
        (inbound (Messages \<lparr>InstanceID = ''79926'', Messages = [example_message ''m1'' ''Ok!''],
                             Ack = [example_ack ''unknown'' ''delivered'']\<rparr>))
   \<and> (\<forall>h e. WriteMsg example_backend h e = None)
   \<and> (\<forall>h s. tolerated (WriteMsgStatus example_backend h s))
   \<and> (\<exists>ts hs events items.
         list_all2 handles [example_message ''m1'' ''Ok!''] ts \<and>
         list_all (\<lambda>e. fst (call_kind e) = ''WriteMsgStatus'') hs \<and>
         length items = 1 \<and>
         receiveMessage example_externals example_backend example_channel []
           (Some \<lparr>InstanceID = ''79926'', Messages = [example_message ''m1'' ''Ok!''],
                   Ack = [example_ack ''unknown'' ''delivered'']\<rparr>) =
           (concat (map message_calls ts) @ hs,
            Responded (map (\<lambda>t. MsgEvent (written t)) ts @ events)
              (WriteDataResponse 200 ''Events Handled''
                 (map (\<lambda>t. MsgReceiveData (written t)) ts @ items))))"
proof -
  let ?p = "\<lparr>InstanceID = ''79926'', Messages = [example_message ''m1'' ''Ok!''],
             Ack = [example_ack ''unknown'' ''delivered'']\<rparr>"
  have inst: "InstanceID ?p \<noteq> ''''"
    by simp
  have inb: "inbound (Messages ?p) = [example_message ''m1'' ''Ok!'']"
    by (simp add: inbound_def example_message_def)
  have urns: "list_all (\<lambda>m. \<exists>urn. NewWhatsAppURN example_externals (Replace_1 (mo_Author m) ''@c.us'' '''') = Inr urn)
                (inbound (Messages ?p))"
    unfolding inb by (simp add: example_message_def example_externals_def)
  have writes: "\<forall>h e. WriteMsg example_backend h e = None"
    by (simp add: example_backend_def)
  have statuses: "\<forall>h s. tolerated (WriteMsgStatus example_backend h s)"
    by (simp add: example_backend_def tolerated_def)
  show ?thesis
    using receiveMessage_checks_then_writes [OF inst urns writes statuses, of example_channel "[]"]
          inst urns writes statuses
    unfolding inb by simp
qed

text \<open>
  C7.  For a webhook with a valid payload whose messages were handled, when every status
  write is answered by success or by "message not found": for every ack, in order, the
  handler calls \<open>WriteMsgStatus\<close> once with the status event for the ack's ID (\<open>sent\<close> for
  \<open>sent\<close>, \<open>delivered\<close> for \<open>delivered\<close>) and makes no other call; an ack answered
  "message not found" leaves the info record \<open>message not found, ignored\<close> in the response
  and no event, the others leave a status record and a status event; the handler goes through
  all the acks and answers \<open>200\<close>.
\<close>

theorem receiveMessage_ack_not_found_ignored:
  assumes inst: "InstanceID payload \<noteq> ''''"
      and msgs: "receive_messages x b ch (Messages payload) (h0, [], []) = Inr (h1, events1, items1)"
      and tol: "list_all tolerated (ack_replies b ch h1 (Ack payload))"
  shows "receiveMessage x b ch h0 (Some payload) =
           (h1 @ map2 (\<lambda>a r. EvWriteMsgStatus (ack_event ch a) r)
                   (Ack payload) (ack_replies b ch h1 (Ack payload)),
            Responded
              (events1 @ map (\<lambda>(a, r). StatusEvent (ack_event ch a))
                           (filter (\<lambda>(a, r). r = None)
                              (zip (Ack payload) (ack_replies b ch h1 (Ack payload)))))
              (WriteDataResponse 200 ''Events Handled''
                 (items1 @ map2 (\<lambda>a r. if r = Some ErrMsgNotFound
                                         then InfoData ''message not found, ignored''
                                         else StatusData (ack_event ch a))
                             (Ack payload) (ack_replies b ch h1 (Ack payload)))))
       \<and> http_status (snd (receiveMessage x b ch h0 (Some payload))) = 200
       \<and> (ack_Status a = ''sent'' \<longrightarrow>
            ack_event ch a = NewMsgStatusForExternalID ch (ack_ID a) MsgSent)
       \<and> (ack_Status a = ''delivered'' \<longrightarrow>
            ack_event ch a = NewMsgStatusForExternalID ch (ack_ID a) MsgDelivered)"
proof -
  have run: "receiveMessage x b ch h0 (Some payload) =
           (h1 @ map2 (\<lambda>a r. EvWriteMsgStatus (ack_event ch a) r)
                   (Ack payload) (ack_replies b ch h1 (Ack payload)),
            Responded
              (events1 @ map (\<lambda>(a, r). StatusEvent (ack_event ch a))
                           (filter (\<lambda>(a, r). r = None)
                              (zip (Ack payload) (ack_replies b ch h1 (Ack payload)))))
              (WriteDataResponse 200 ''Events Handled''
                 (items1 @ map2 (\<lambda>a r. if r = Some ErrMsgNotFound
                                         then InfoData ''message not found, ignored''
                                         else StatusData (ack_event ch a))
                             (Ack payload) (ack_replies b ch h1 (Ack payload)))))"
    using receive_acks_tolerated [OF tol, of events1 items1]
    by (simp add: receiveMessage_valid [OF inst msgs] ack_item_def)
  have code: "http_status (snd (receiveMessage x b ch h0 (Some payload))) = 200"
    unfolding run by (simp add: WriteDataResponse_def)
  have mapping:
    "ack_Status a = ''sent'' \<longrightarrow> ack_event ch a = NewMsgStatusForExternalID ch (ack_ID a) MsgSent"
    "ack_Status a = ''delivered'' \<longrightarrow> ack_event ch a = NewMsgStatusForExternalID ch (ack_ID a) MsgDelivered"
    by (simp_all add: ack_event_def ack_status_value_def)
  show ?thesis
    using run code mapping by blast
qed

theorem receiveMessage_ack_not_found_ignored_witness:
  "InstanceID \<lparr>InstanceID = ''79926'', Messages = [],
                Ack = [example_ack ''unknown'' ''delivered'', example_ack ''x1'' ''sent'']\<rparr> \<noteq> ''''
   \<and> receive_messages example_externals example_backend example_channel
        (Messages \<lparr>InstanceID = ''79926'', Messages = [],
                    Ack = [example_ack ''unknown'' ''delivered'', example_ack ''x1'' ''sent'']\<rparr>)
        ([], [], []) = Inr ([], [], [])
   \<and> list_all tolerated
        (ack_replies example_backend example_channel []
           (Ack \<lparr>InstanceID = ''79926'', Messages = [],
                  Ack = [example_ack ''unknown'' ''delivered'', example_ack ''x1'' ''sent'']\<rparr>))
   \<and> (case receiveMessage example_externals example_backend example_channel []
              (Some \<lparr>InstanceID = ''79926'', Messages = [],
                      Ack = [example_ack ''unknown'' ''delivered'', example_ack ''x1'' ''sent'']\<rparr>) of
         (h, Responded events r) \<Rightarrow>
           h = [EvWriteMsgStatus (NewMsgStatusForExternalID example_channel ''unknown'' MsgDelivered)
                  (Some ErrMsgNotFound),
                EvWriteMsgStatus (NewMsgStatusForExternalID example_channel ''x1'' MsgSent) None] \<and>
           events = [StatusEvent (NewMsgStatusForExternalID example_channel ''x1'' MsgSent)] \<and>
           resp_Code r = 200 \<and>
           resp_Data r = [InfoData ''message not found, ignored'',
                          StatusData (NewMsgStatusForExternalID example_channel ''x1'' MsgSent)]
       | (h, Failed e) \<Rightarrow> False)"
proof -
  let ?acks = "[example_ack ''unknown'' ''delivered'', example_ack ''x1'' ''sent'']"
  let ?p = "\<lparr>InstanceID = ''79926'', Messages = [], Ack = ?acks\<rparr>"
  have inst: "InstanceID ?p \<noteq> ''''"
    by simp
  have msgs: "receive_messages example_externals example_backend example_channel (Messages ?p)
                ([], [], []) = Inr ([], [], [])"
    by simp
  have tol: "list_all tolerated (ack_replies example_backend example_channel [] (Ack ?p))"
    by (simp add: tolerated_def example_backend_def example_ack_def ack_event_def
          NewMsgStatusForExternalID_def)
  show ?thesis
    using receiveMessage_ack_not_found_ignored [OF inst msgs tol]
    by (simp add: WriteDataResponse_def example_backend_def example_ack_def ack_event_def
          ack_status_value_def NewMsgStatusForExternalID_def tolerated_def)
qed

text \<open>
  C8.  The claim fails on the code.  A payload whose \<open>instanceId\<close> is empty, whatever its
  messages and acks, never reaches the branch that ignores it: the validation of the
  required field rejects it first, and the handler answers \<open>400\<close> with an error envelope.
\<close>

theorem receiveMessage_empty_instance_rejected:
  "receiveMessage x b ch h0 (Some \<lparr>InstanceID = '''', Messages = ms, Ack = acks\<rparr>) =
     (h0, Responded []
            (WriteAndLogRequestError (Errorf ''request JSON doesn't match required schema'')))
   \<and> http_status (snd (receiveMessage x b ch h0 (Some \<lparr>InstanceID = '''', Messages = ms, Ack = acks\<rparr>))) = 400"
  by (simp add: receiveMessage_def DecodeAndValidateJSON_def WriteAndLogRequestError_def
        WriteDataResponse_def)

text \<open>
  C10.  For a webhook with a valid payload whose messages were handled, every ack that is
  reached (the status writes of the acks before it were answered by success or by "message
  not found") and whose status is neither \<open>sent\<close> nor \<open>delivered\<close> makes the handler call
  \<open>WriteMsgStatus\<close> with the status \<open>queued\<close> for the ack's ID as external ID: that call is
  the entry of the history at the ack's position.
\<close>

theorem receiveMessage_other_ack_queued:
  assumes inst: "InstanceID payload \<noteq> ''''"
      and msgs: "receive_messages x b ch (Messages payload) (h0, [], []) = Inr (h1, events1, items1)"
      and i: "i < length (Ack payload)"
      and reached: "list_all tolerated (take i (ack_replies b ch h1 (Ack payload)))"
      and other: "ack_Status (Ack payload ! i) \<noteq> ''sent''" "ack_Status (Ack payload ! i) \<noteq> ''delivered''"
  shows "length h1 + i < length (fst (receiveMessage x b ch h0 (Some payload)))
       \<and> fst (receiveMessage x b ch h0 (Some payload)) ! (length h1 + i) =
           EvWriteMsgStatus (NewMsgStatusForExternalID ch (ack_ID (Ack payload ! i)) MsgQueued)
             (ack_replies b ch h1 (Ack payload) ! i)"
proof -
  let ?rs = "ack_replies b ch h1 (Ack payload)"
  let ?calls = "map2 (\<lambda>a r. EvWriteMsgStatus (ack_event ch a) r) (Ack payload) ?rs"
  let ?n = "Suc (length (takeWhile tolerated ?rs))"
  have h: "fst (receiveMessage x b ch h0 (Some payload)) = h1 @ take ?n ?calls"
    by (simp add: receiveMessage_history [OF inst msgs] receive_acks_history)
  have "i \<le> length (takeWhile tolerated ?rs)"
    using reached i by (intro takeWhile_reaches) simp_all
  then have n: "i < ?n"
    by simp
  have len: "i < length (take ?n ?calls)"
    using n i by simp
  have q: "ack_event ch (Ack payload ! i) =
             NewMsgStatusForExternalID ch (ack_ID (Ack payload ! i)) MsgQueued"
    using other by (simp add: ack_event_def ack_status_value_def)
  have "take ?n ?calls ! i = ?calls ! i"
    using n by simp
  also have "\<dots> = EvWriteMsgStatus (ack_event ch (Ack payload ! i)) (?rs ! i)"
    using i by simp
  finally have entry: "take ?n ?calls ! i =
      EvWriteMsgStatus (NewMsgStatusForExternalID ch (ack_ID (Ack payload ! i)) MsgQueued) (?rs ! i)"
    unfolding q .
  show ?thesis
    unfolding h using len entry by (simp add: nth_append)
qed

theorem receiveMessage_other_ack_queued_witness:
  "InstanceID \<lparr>InstanceID = ''79926'', Messages = [],
                Ack = [example_ack ''unknown'' ''delivered'', example_ack ''x2'' ''read'']\<rparr> \<noteq> ''''
   \<and> receive_messages example_externals example_backend example_channel
        (Messages \<lparr>InstanceID = ''79926'', Messages = [],
                    Ack = [example_ack ''unknown'' ''delivered'', example_ack ''x2'' ''read'']\<rparr>)
        ([], [], []) = Inr ([], [], [])
   \<and> (1::nat) < length (Ack \<lparr>InstanceID = ''79926'', Messages = [],
                    Ack = [example_ack ''unknown'' ''delivered'', example_ack ''x2'' ''read'']\<rparr>)
   \<and> list_all tolerated
        (take 1 (ack_replies example_backend example_channel []
           (Ack \<lparr>InstanceID = ''79926'', Messages = [],
                  Ack = [example_ack ''unknown'' ''delivered'', example_ack ''x2'' ''read'']\<rparr>)))
   \<and> ack_Status (example_ack ''x2'' ''read'') \<noteq> ''sent''
   \<and> ack_Status (example_ack ''x2'' ''read'') \<noteq> ''delivered''
   \<and> fst (receiveMessage example_externals example_backend example_channel []
            (Some \<lparr>InstanceID = ''79926'', Messages = [],
                    Ack = [example_ack ''unknown'' ''delivered'', example_ack ''x2'' ''read'']\<rparr>)) ! 1 =
       EvWriteMsgStatus (NewMsgStatusForExternalID example_channel ''x2'' MsgQueued) None"
proof -
  let ?acks = "[example_ack ''unknown'' ''delivered'', example_ack ''x2'' ''read'']"
  let ?p = "\<lparr>InstanceID = ''79926'', Messages = [], Ack = ?acks\<rparr>"
  have inst: "InstanceID ?p \<noteq> ''''"
    by simp
  have msgs: "receive_messages example_externals example_backend example_channel (Messages ?p)
                ([], [], []) = Inr ([], [], [])"
    by simp
  have i: "(1::nat) < length (Ack ?p)"
    by simp
  have reached: "list_all tolerated (take 1 (ack_replies example_backend example_channel [] (Ack ?p)))"
    by (simp add: tolerated_def example_backend_def example_ack_def ack_event_def
          NewMsgStatusForExternalID_def)
  have other: "ack_Status (Ack ?p ! 1) \<noteq> ''sent''" "ack_Status (Ack ?p ! 1) \<noteq> ''delivered''"
    by (simp_all add: example_ack_def)
  show ?thesis
    using receiveMessage_other_ack_queued [OF inst msgs i reached other]
    by (simp add: example_backend_def example_ack_def ack_event_def ack_status_value_def
          NewMsgStatusForExternalID_def tolerated_def)
qed

end
